theory Spec2Isabelle
  imports Main "HOL-Library.Sublist"
begin

section \<open>Go strings and paths\<close>

text \<open>
  A Go string is a sequence of bytes; it is modelled as a \<open>string\<close> (a list of
  8-bit characters). The functions below are the ones of packages \<open>strings\<close>,
  \<open>fmt\<close> and \<open>path/filepath\<close> that \<open>lxd/storage_lvm.go\<close> calls.
\<close>

definition quote :: string where
  "quote = [CHR 0x27]"

definition newline :: string where
  "newline = [CHR 0x0A]"

text \<open>\<open>strings.HasPrefix(s, p)\<close>.\<close>

definition HasPrefix :: "string \<Rightarrow> string \<Rightarrow> bool" where
  "HasPrefix s p = prefix p s"

text \<open>\<open>strings.Contains(s, substr)\<close>.\<close>

fun Contains :: "string \<Rightarrow> string \<Rightarrow> bool" where
  "Contains [] substr = (substr = [])"
| "Contains (c # cs) substr = (prefix substr (c # cs) \<or> Contains cs substr)"

text \<open>
  \<open>strings.Replace(s, old, new, -1)\<close>: every non-overlapping occurrence of \<open>old\<close>,
  found from the left, is replaced by \<open>new\<close>. Both call sites pass a non-empty literal
  for \<open>old\<close>; Go's insertion at every rune boundary for an empty \<open>old\<close> is outside the
  model, which leaves the string alone there.
\<close>

function Replace :: "string \<Rightarrow> string \<Rightarrow> string \<Rightarrow> string" where
  "Replace s old new =
     (if old = [] \<or> s = [] then s
      else if prefix old s then new @ Replace (drop (length old) s) old new
      else hd s # Replace (tl s) old new)"
  by pat_completeness auto
termination
  by (relation "measure (\<lambda>(s, old, new). length s)") auto

declare Replace.simps [simp del]

text \<open>\<open>strings.Join(elems, sep)\<close>.\<close>

fun joinWith :: "string \<Rightarrow> string list \<Rightarrow> string" where
  "joinWith sep [] = []"
| "joinWith sep [x] = x"
| "joinWith sep (x # y # ys) = x @ sep @ joinWith sep (y # ys)"

text \<open>\<open>strings.Split(s, sep)\<close> for a separator of one byte.\<close>

fun Split :: "string \<Rightarrow> char \<Rightarrow> string list" where
  "Split [] sep = [[]]"
| "Split (c # cs) sep =
     (if c = sep then [] # Split cs sep
      else (case Split cs sep of [] \<Rightarrow> [[c]] | f # fs \<Rightarrow> (c # f) # fs))"

text \<open>
  \<open>strings.SplitAfterN(s, sep, 2)\<close> for a separator of one byte: the text up to and
  including the first separator, then the rest; the whole string when there is none.
\<close>

definition SplitAfterN2 :: "string \<Rightarrow> char \<Rightarrow> string list" where
  "SplitAfterN2 s sep =
     (case dropWhile (\<lambda>c. c \<noteq> sep) s of
        [] \<Rightarrow> [s]
      | c # rest \<Rightarrow> [takeWhile (\<lambda>c. c \<noteq> sep) s @ [c], rest])"

text \<open>
  \<open>strings.TrimSpace\<close> removes leading and trailing white space as Unicode defines it.
  On bytes these are the six ASCII characters and the UTF-8 encodings of U+0085, U+00A0,
  U+1680, U+2000 to U+200A, U+2028, U+2029, U+202F, U+205F and U+3000.
\<close>

definition spaces :: "string list" where
  "spaces =
     [[CHR 0x09], [CHR 0x0A], [CHR 0x0B], [CHR 0x0C], [CHR 0x0D], [CHR 0x20],
      [CHR 0xC2, CHR 0x85], [CHR 0xC2, CHR 0xA0], [CHR 0xE1, CHR 0x9A, CHR 0x80],
      [CHR 0xE2, CHR 0x80, CHR 0x80], [CHR 0xE2, CHR 0x80, CHR 0x81],
      [CHR 0xE2, CHR 0x80, CHR 0x82], [CHR 0xE2, CHR 0x80, CHR 0x83],
      [CHR 0xE2, CHR 0x80, CHR 0x84], [CHR 0xE2, CHR 0x80, CHR 0x85],
      [CHR 0xE2, CHR 0x80, CHR 0x86], [CHR 0xE2, CHR 0x80, CHR 0x87],
      [CHR 0xE2, CHR 0x80, CHR 0x88], [CHR 0xE2, CHR 0x80, CHR 0x89],
      [CHR 0xE2, CHR 0x80, CHR 0x8A], [CHR 0xE2, CHR 0x80, CHR 0xA8],
      [CHR 0xE2, CHR 0x80, CHR 0xA9], [CHR 0xE2, CHR 0x80, CHR 0xAF],
      [CHR 0xE2, CHR 0x81, CHR 0x9F], [CHR 0xE3, CHR 0x80, CHR 0x80]]"

function trimPrefixes :: "string list \<Rightarrow> string \<Rightarrow> string" where
  "trimPrefixes pats s =
     (case filter (\<lambda>sp. sp \<noteq> [] \<and> prefix sp s) pats of
        [] \<Rightarrow> s
      | sp # _ \<Rightarrow> trimPrefixes pats (drop (length sp) s))"
  by pat_completeness auto
termination
proof (relation "measure (\<lambda>(pats, s). length s)")
  show "wf (measure (\<lambda>(pats, s). length s))" by simp
next
  fix pats :: "string list" and s :: string and sp rest
  assume a: "filter (\<lambda>sp. sp \<noteq> [] \<and> prefix sp s) pats = sp # rest"
  have "sp \<in> set (filter (\<lambda>sp. sp \<noteq> [] \<and> prefix sp s) pats)"
    unfolding a by simp
  hence "sp \<noteq> []" and "prefix sp s" by simp_all
  hence "s \<noteq> []" by auto
  with \<open>sp \<noteq> []\<close> show "((pats, drop (length sp) s), (pats, s)) \<in> measure (\<lambda>(pats, s). length s)"
    by simp
qed

declare trimPrefixes.simps [simp del]

definition TrimSpace :: "string \<Rightarrow> string" where
  "TrimSpace s = rev (trimPrefixes (map rev spaces) (rev (trimPrefixes spaces s)))"

text \<open>
  \<open>filepath.Clean\<close> on a Unix path: empty and \<open>.\<close> elements are dropped, a \<open>..\<close>
  element removes the element before it (at the root it is dropped itself), and the
  empty result is written \<open>.\<close>. The elements kept so far are held newest first.
\<close>

definition cleanStep :: "bool \<Rightarrow> string list \<Rightarrow> string \<Rightarrow> string list" where
  "cleanStep rooted kept c =
     (if c = ''..'' then
        (case kept of
           [] \<Rightarrow> if rooted then [] else [''..'']
         | k # ks \<Rightarrow> if k = ''..'' then c # kept else ks)
      else c # kept)"

definition Clean :: "string \<Rightarrow> string" where
  "Clean p =
     (let rooted = (p \<noteq> [] \<and> hd p = CHR ''/'');
          elems = filter (\<lambda>c. c \<noteq> [] \<and> c \<noteq> ''.'') (Split p (CHR ''/''));
          kept = foldl (cleanStep rooted) [] elems;
          body = joinWith ''/'' (rev kept);
          r = (if rooted then ''/'' @ body else body)
      in if r = [] then ''.'' else r)"

text \<open>\<open>filepath.Join\<close>: leading empty elements are ignored, the rest is joined and cleaned.\<close>

definition Join :: "string list \<Rightarrow> string" where
  "Join elems =
     (case dropWhile (\<lambda>e. e = []) elems of
        [] \<Rightarrow> []
      | es \<Rightarrow> Clean (joinWith ''/'' es))"

text \<open>\<open>filepath.Base\<close>: the last element of the path, trailing slashes removed first.\<close>

definition Base :: "string \<Rightarrow> string" where
  "Base p =
     (if p = [] then ''.''
      else
        (let stripped = rev (dropWhile (\<lambda>c. c = CHR ''/'') (rev p));
             last_elem = rev (takeWhile (\<lambda>c. c \<noteq> CHR ''/'') (rev stripped))
         in if last_elem = [] then ''/'' else last_elem))"

section \<open>Names of logical volumes\<close>

text \<open>
  Modelled from the spec: \<open>shared.SnapshotDelimiter\<close> is declared in package \<open>shared\<close>,
  which is not part of the sources at hand. The spec describes it as the separator of
  \<open>container/snapshot\<close> names, and \<open>storage_lvm.go\<close> itself tests snapshot names for
  \<open>"/"\<close> and appends \<open>"/rw"\<close> to them.
\<close>

definition SnapshotDelimiter :: string where
  "SnapshotDelimiter = ''/''"

definition containerNameToLVName :: "string \<Rightarrow> string" where
  "containerNameToLVName containerName =
     (let lvName = Replace containerName ''-'' ''--''
      in Replace lvName SnapshotDelimiter ''-'')"

section \<open>The driver's surroundings\<close>

text \<open>
  The driver works through external commands, system calls, the daemon's configuration
  store and database, and methods of the container objects. None of these is decided by
  the driver: an environment gives the outcome of every such operation, as a function of
  the operations performed so far (newest first) and of the operation asked for. The
  world holds what the driver can observe afterwards: the paths that exist and the trace
  of the operations it has performed, log lines included.

  A Go \<open>error\<close> is modelled by its message; \<open>nil\<close> is \<open>None\<close>.
\<close>

type_synonym error = string

text \<open>
  The result of \<open>exec.Command(...).CombinedOutput()\<close> or \<open>.Output()\<close>: the process
  exited with status 0; it ran and ended otherwise (an \<open>*exec.ExitError\<close>, with the
  value of \<open>ExitStatus()\<close>, the error's text and the captured output); or it could not be
  run at all (any other error).
\<close>

datatype exec_result =
    Done string
  | ExitError int string string
  | StartError string string

fun exec_err :: "exec_result \<Rightarrow> error option" where
  "exec_err (Done out) = None"
| "exec_err (ExitError status msg out) = Some msg"
| "exec_err (StartError msg out) = Some msg"

fun exec_output :: "exec_result \<Rightarrow> string" where
  "exec_output (Done out) = out"
| "exec_output (ExitError status msg out) = out"
| "exec_output (StartError msg out) = out"

datatype level = LDebug | LInfo | LWarn | LError

datatype op =
    Exec string "string list"
  | Symlink string string
  | MkdirAll string
  | Remove string
  | RemoveAll string
  | Rename string string
  | TempDir string string
  | Unmount string
  | CfgGet string
  | CfgSet string string
  | ListContainers
  | ListImages
  | InitShared
  | ShiftRootfs string
  | Template string string
  | Rsync string string
  | Untar string string
  | Log level string
  | Entered string string string

record env =
  VarDir :: string
  run :: "op list \<Rightarrow> string \<Rightarrow> string list \<Rightarrow> exec_result"
  call :: "op list \<Rightarrow> op \<Rightarrow> error option"
  fetch :: "op list \<Rightarrow> op \<Rightarrow> error + string"
  listing :: "op list \<Rightarrow> op \<Rightarrow> error + string list"
  sync :: "op list \<Rightarrow> string \<Rightarrow> string \<Rightarrow> string \<times> error option"

record world =
  fs :: "string set"
  trace :: "op list"

definition record_op :: "op \<Rightarrow> world \<Rightarrow> world" where
  "record_op e w = w\<lparr>trace := e # trace w\<rparr>"

text \<open>The logger is a sink: a log call adds a line to the trace (its context is dropped).\<close>

definition logMsg :: "level \<Rightarrow> string \<Rightarrow> world \<Rightarrow> world" where
  "logMsg lvl msg w = record_op (Log lvl msg) w"

text \<open>\<open>exec.Command(name, args...)\<close>, run to its end.\<close>

definition command :: "env \<Rightarrow> string \<Rightarrow> string list \<Rightarrow> world \<Rightarrow> exec_result \<times> world" where
  "command env name args w = (run env (trace w) name args, record_op (Exec name args) w)"

text \<open>
  An operation that returns only an error. When it succeeds, \<open>effect\<close> is what it does to
  the paths that exist.
\<close>

definition perform :: "env \<Rightarrow> op \<Rightarrow> (string set \<Rightarrow> string set) \<Rightarrow> world \<Rightarrow> error option \<times> world" where
  "perform env e effect w =
     (let r = call env (trace w) e; w1 = record_op e w
      in (r, if r = None then w1\<lparr>fs := effect (fs w1)\<rparr> else w1))"

definition os_Symlink :: "env \<Rightarrow> string \<Rightarrow> string \<Rightarrow> world \<Rightarrow> error option \<times> world" where
  "os_Symlink env oldname newname w = perform env (Symlink oldname newname) (insert newname) w"

definition os_MkdirAll :: "env \<Rightarrow> string \<Rightarrow> world \<Rightarrow> error option \<times> world" where
  "os_MkdirAll env path w = perform env (MkdirAll path) (insert path) w"

definition os_Remove :: "env \<Rightarrow> string \<Rightarrow> world \<Rightarrow> error option \<times> world" where
  "os_Remove env path w = perform env (Remove path) (\<lambda>paths. paths - {path}) w"

definition os_RemoveAll :: "env \<Rightarrow> string \<Rightarrow> world \<Rightarrow> error option \<times> world" where
  "os_RemoveAll env path w =
     perform env (RemoveAll path)
       (\<lambda>paths. Set.filter (\<lambda>q. q \<noteq> path \<and> \<not> prefix (path @ ''/'') q) paths) w"

definition os_Rename :: "env \<Rightarrow> string \<Rightarrow> string \<Rightarrow> world \<Rightarrow> error option \<times> world" where
  "os_Rename env oldpath newpath w =
     perform env (Rename oldpath newpath) (\<lambda>paths. insert newpath (paths - {oldpath})) w"

definition syscall_Unmount :: "env \<Rightarrow> string \<Rightarrow> world \<Rightarrow> error option \<times> world" where
  "syscall_Unmount env target w = perform env (Unmount target) (\<lambda>paths. paths) w"

text \<open>\<open>ioutil.TempDir(dir, prefix)\<close>: the new directory's name, chosen by the system.\<close>

definition ioutil_TempDir :: "env \<Rightarrow> string \<Rightarrow> string \<Rightarrow> world \<Rightarrow> (error + string) \<times> world" where
  "ioutil_TempDir env dir pfx w =
     (let r = fetch env (trace w) (TempDir dir pfx); w1 = record_op (TempDir dir pfx) w
      in (r, case r of Inl err \<Rightarrow> w1 | Inr name \<Rightarrow> w1\<lparr>fs := insert name (fs w1)\<rparr>))"

text \<open>
  Modelled from the spec: \<open>shared.PathExists\<close>, \<open>shared.VarPath\<close> and \<open>containerPath\<close>
  are declared outside the sources at hand. A path exists when the file system has it
  (a link counts, whatever it points at); \<open>VarPath\<close> joins its arguments below the
  daemon's state directory; a container lives below \<open>containers\<close> and a snapshot below
  \<open>snapshots\<close>, which is where the spec puts their links.
\<close>

definition PathExists :: "world \<Rightarrow> string \<Rightarrow> bool" where
  "PathExists w name = (name \<in> fs w)"

definition VarPath :: "env \<Rightarrow> string list \<Rightarrow> string" where
  "VarPath env path = Join (VarDir env # path)"

definition containerPath :: "env \<Rightarrow> string \<Rightarrow> bool \<Rightarrow> string" where
  "containerPath env name isSnapshot =
     (if isSnapshot then VarPath env [''snapshots'', name] else VarPath env [''containers'', name])"

text \<open>
  The daemon's configuration store and database, the helpers of the shared storage code
  and the hooks of a container: each is an operation whose outcome the environment gives.
\<close>

definition ConfigValueGet :: "env \<Rightarrow> string \<Rightarrow> world \<Rightarrow> (error + string) \<times> world" where
  "ConfigValueGet env key w = (fetch env (trace w) (CfgGet key), record_op (CfgGet key) w)"

definition ConfigValueSet :: "env \<Rightarrow> string \<Rightarrow> string \<Rightarrow> world \<Rightarrow> error option \<times> world" where
  "ConfigValueSet env key v w = perform env (CfgSet key v) (\<lambda>paths. paths) w"

definition dbContainersList :: "env \<Rightarrow> world \<Rightarrow> (error + string list) \<times> world" where
  "dbContainersList env w = (listing env (trace w) ListContainers, record_op ListContainers w)"

definition dbImagesGet :: "env \<Rightarrow> world \<Rightarrow> (error + string list) \<times> world" where
  "dbImagesGet env w = (listing env (trace w) ListImages, record_op ListImages w)"

definition initShared :: "env \<Rightarrow> world \<Rightarrow> error option \<times> world" where
  "initShared env w = perform env InitShared (\<lambda>paths. paths) w"

definition storageRsyncCopy :: "env \<Rightarrow> string \<Rightarrow> string \<Rightarrow> world \<Rightarrow> (string \<times> error option) \<times> world" where
  "storageRsyncCopy env source dest w = (sync env (trace w) source dest, record_op (Rsync source dest) w)"

definition untarImage :: "env \<Rightarrow> string \<Rightarrow> string \<Rightarrow> world \<Rightarrow> error option \<times> world" where
  "untarImage env imagefname destpath w = perform env (Untar imagefname destpath) (\<lambda>paths. paths) w"

section \<open>The LVM storage driver\<close>

text \<open>
  A container, as far as the driver uses the interface: its name and path, whether it is
  privileged, whether it is a snapshot, and what \<open>Snapshots()\<close> returns (an error or its
  snapshots). \<open>TemplateApply\<close> is an operation on the container's name.
\<close>

datatype container =
  Container (Name: string) (Path: string) (IsPrivileged: bool) (IsSnapshot: bool)
    (Snapshots: "error + container list")

definition TemplateApply :: "env \<Rightarrow> container \<Rightarrow> string \<Rightarrow> world \<Rightarrow> error option \<times> world" where
  "TemplateApply env c trigger w = perform env (Template (Name c) trigger) (\<lambda>paths. paths) w"

definition shiftRootfs :: "env \<Rightarrow> container \<Rightarrow> world \<Rightarrow> error option \<times> world" where
  "shiftRootfs env c w = perform env (ShiftRootfs (Name c)) (\<lambda>paths. paths) w"

definition storageLvmDefaultThinLVSize :: string where
  "storageLvmDefaultThinLVSize = ''10GiB''"

definition storageLvmDefaultThinPoolName :: string where
  "storageLvmDefaultThinPoolName = ''LXDPool''"

text \<open>\<open>fmt\<close>'s \<open>%v\<close> of a slice of strings.\<close>

definition fmtStrings :: "string list \<Rightarrow> string" where
  "fmtStrings xs = ''['' @ joinWith '' '' xs @ '']''"

definition storageLVMCheckVolumeGroup :: "env \<Rightarrow> string \<Rightarrow> world \<Rightarrow> error option \<times> world" where
  "storageLVMCheckVolumeGroup env vgName w =
     (let (r, w1) = command env ''vgdisplay'' [''-s'', vgName] w
      in case exec_err r of
           Some err \<Rightarrow>
             (Some (''LVM volume group '' @ quote @ vgName @ quote @ '' not found''),
              logMsg LDebug ''vgdisplay failed to find vg'' w1)
         | None \<Rightarrow> (None, w1))"

definition storageLVMThinpoolExists ::
    "env \<Rightarrow> string \<Rightarrow> string \<Rightarrow> world \<Rightarrow> (bool \<times> error option) \<times> world" where
  "storageLVMThinpoolExists env vgName poolName w =
     (let (r, w1) = command env ''vgs'' [''--noheadings'', ''-o'', ''lv_attr'', vgName @ ''/'' @ poolName] w
      in (case r of
            ExitError status msg out \<Rightarrow>
              if status = 5 then (False, None)
              else (False, Some (''Error checking for pool '' @ quote @ poolName @ quote))
          | StartError msg out \<Rightarrow>
              (False, Some (''Error checking for pool '' @ quote @ poolName @ quote))
          | Done output \<Rightarrow>
              (let attrs = TrimSpace output
               in if HasPrefix attrs ''t'' then (True, None)
                  else (False, Some (''Pool named '' @ quote @ poolName @ quote @
                                      '' exists but is not a thin pool.''))),
          w1))"

definition storageLVMGetThinPoolUsers :: "env \<Rightarrow> world \<Rightarrow> (string list \<times> error option) \<times> world" where
  "storageLVMGetThinPoolUsers env w =
     (let results = [];
          (r1, w1) = ConfigValueGet env ''storage.lvm_vg_name'' w
      in case r1 of
           Inl err \<Rightarrow> ((results, Some ''Error getting lvm_vg_name config''), w1)
         | Inr vgname \<Rightarrow>
             if vgname = [] then ((results, None), w1)
             else
               (let (r2, w2) = ConfigValueGet env ''storage.lvm_thinpool_name'' w1
                in case r2 of
                     Inl err \<Rightarrow> ((results, Some ''Error getting lvm_thinpool_name config''), w2)
                   | Inr poolname \<Rightarrow>
                       if poolname = [] then ((results, None), w2)
                       else
                         (let (r3, w3) = dbContainersList env w2
                          in case r3 of
                               Inl err \<Rightarrow> ((results, Some err), w3)
                             | Inr cNames \<Rightarrow>
                                 (let results =
                                        foldl (\<lambda>results cName.
                                          let lvLinkPath =
                                                (if Contains cName SnapshotDelimiter
                                                 then VarPath env [''snapshots'', cName @ ''.lv'']
                                                 else VarPath env [''containers'', cName @ ''.lv''])
                                          in if PathExists w3 lvLinkPath then results @ [cName]
                                             else results) results cNames;
                                      (r4, w4) = dbImagesGet env w3
                                  in case r4 of
                                       Inl err \<Rightarrow> ((results, Some err), w4)
                                     | Inr imageNames \<Rightarrow>
                                         (let results =
                                                foldl (\<lambda>results imageName.
                                                  let imageLinkPath =
                                                        VarPath env [''images'', imageName @ ''.lv'']
                                                  in if PathExists w4 imageLinkPath
                                                     then results @ [imageName]
                                                     else results) results imageNames
                                          in ((results, None), w4))))))"

definition storageLVMSetThinPoolNameConfig :: "env \<Rightarrow> string \<Rightarrow> world \<Rightarrow> error option \<times> world" where
  "storageLVMSetThinPoolNameConfig env poolname w =
     (let ((users, err), w1) = storageLVMGetThinPoolUsers env w
      in case err of
           Some e \<Rightarrow> (Some (''Error checking if a pool is already in use: '' @ e), w1)
         | None \<Rightarrow>
             if length users > 0 then
               (Some (''Can not change LVM config. Images or containers are still using LVs: '' @
                      fmtStrings users), w1)
             else
               (let (r, w2) = ConfigValueGet env ''storage.lvm_vg_name'' w1
                in case r of
                     Inl e \<Rightarrow> (Some (''Error getting lvm_vg_name config: '' @ e), w2)
                   | Inr vgname \<Rightarrow>
                       (let (checked, w3) =
                              (if poolname \<noteq> [] then
                                 (if vgname = [] then
                                    (Some ''Can not set lvm_thinpool_name without lvm_vg_name set.'', w2)
                                  else
                                    (let ((poolExists, err), w3) =
                                           storageLVMThinpoolExists env vgname poolname w2
                                     in case err of
                                          Some e \<Rightarrow>
                                            (Some (''Error checking for thin pool '' @ quote @ poolname @
                                                   quote @ '' in '' @ quote @ vgname @ quote @ '': '' @ e),
                                             w3)
                                        | None \<Rightarrow>
                                            if \<not> poolExists then
                                              (Some (''Pool '' @ quote @ poolname @ quote @
                                                     '' does not exist in Volume Group '' @ quote @
                                                     vgname @ quote), w3)
                                            else (None, w3)))
                               else (None, w2))
                        in case checked of
                             Some e \<Rightarrow> (Some e, w3)
                           | None \<Rightarrow> ConfigValueSet env ''storage.lvm_thinpool_name'' poolname w3)))"

definition storageLVMSetVolumeGroupNameConfig :: "env \<Rightarrow> string \<Rightarrow> world \<Rightarrow> error option \<times> world" where
  "storageLVMSetVolumeGroupNameConfig env vgname w =
     (let ((users, err), w1) = storageLVMGetThinPoolUsers env w
      in case err of
           Some e \<Rightarrow> (Some (''Error checking if a pool is already in use: '' @ e), w1)
         | None \<Rightarrow>
             if length users > 0 then
               (Some (''Can not change LVM config. Images or containers are still using LVs: '' @
                      fmtStrings users), w1)
             else
               (let (checked, w2) =
                      (if vgname \<noteq> [] then storageLVMCheckVolumeGroup env vgname w1
                       else (None, w1))
                in case checked of
                     Some e \<Rightarrow> (Some e, w2)
                   | None \<Rightarrow> ConfigValueSet env ''storage.lvm_vg_name'' vgname w2))"

text \<open>
  The driver's own state: the volume group it is bound to and the version string it
  reports. (\<open>sType\<close> and \<open>sTypeName\<close> are constant tags of the shared storage code.)
\<close>

record storageLvm =
  vgName :: string
  sTypeVersion :: string

text \<open>
  A value of the configuration map \<open>map[string]interface{}\<close>: \<open>nil\<close>, a string, or a
  value of another type. A Go function returns or panics.
\<close>

datatype iface = Nil | Str string | Other

datatype 'a go = Return 'a | Panic string

text \<open>The loop of \<open>Init\<close> over the lines of \<open>lvm version\<close>.\<close>

fun versionLoop :: "string list \<Rightarrow> nat \<Rightarrow> string \<Rightarrow> string" where
  "versionLoop [] idx version = version"
| "versionLoop (line # rest) idx version =
     (let fields = SplitAfterN2 line (CHR '':'')
      in if length fields < 2 then versionLoop rest (Suc idx) version
         else
           (let version = (if idx > 0 then version @ '' / '' else version);
                version = version @ TrimSpace (fields ! 1)
            in versionLoop rest (Suc idx) version))"

definition Init ::
    "env \<Rightarrow> storageLvm \<Rightarrow> (string \<rightharpoonup> iface) \<Rightarrow> world \<Rightarrow>
     (storageLvm option \<times> error option) go \<times> world" where
  "Init env s config w =
     (let (e0, w1) = initShared env w
      in case e0 of
           Some err \<Rightarrow> (Return (Some s, Some err), w1)
         | None \<Rightarrow>
             (let (r, w2) = command env ''lvm'' [''version''] w1
              in case exec_err r of
                   Some err \<Rightarrow>
                     (Return (None, Some (''Error getting LVM version: '' @ err @ newline @
                                          ''output:'' @ quote @ exec_output r @ quote)), w2)
                 | None \<Rightarrow>
                     (let lines = Split (exec_output r) (CHR 0x0A);
                          s = s\<lparr>sTypeVersion := versionLoop lines 0 []\<rparr>
                      in if config ''vgName'' = None \<or> config ''vgName'' = Some Nil then
                           (let (r3, w3) = ConfigValueGet env ''storage.lvm_vg_name'' w2
                            in case r3 of
                                 Inl err \<Rightarrow>
                                   (Return (Some s, Some (''Error checking server config: '' @ err)), w3)
                               | Inr vgName' \<Rightarrow>
                                   if vgName' = [] then
                                     (Return (Some s, Some (''LVM isn'' @ quote @ ''t enabled'')), w3)
                                   else
                                     (let (e4, w4) = storageLVMCheckVolumeGroup env vgName' w3
                                      in case e4 of
                                           Some err \<Rightarrow> (Return (Some s, Some err), w4)
                                         | None \<Rightarrow> (Return (Some (s\<lparr>vgName := vgName'\<rparr>), None), w4)))
                         else
                           (case config ''vgName'' of
                              Some (Str v) \<Rightarrow> (Return (Some (s\<lparr>vgName := v\<rparr>), None), w2)
                            | _ \<Rightarrow>
                                (Panic ''interface conversion: interface {} is not string'', w2)))))"

subsection \<open>Operations on one volume\<close>

definition createDefaultThinPool :: "env \<Rightarrow> storageLvm \<Rightarrow> world \<Rightarrow> (error + string) \<times> world" where
  "createDefaultThinPool env s w =
     (let (r, w1) = command env ''lvcreate''
                      [''--poolmetadatasize'', ''1G'', ''-l'', ''100%FREE'', ''--thinpool'',
                       vgName s @ ''/'' @ storageLvmDefaultThinPoolName] w
      in case exec_err r of
           Some err \<Rightarrow>
             (Inl (''Could not create LVM thin pool named '' @ storageLvmDefaultThinPoolName),
              logMsg LDebug ''Could not create thin pool'' w1)
         | None \<Rightarrow> (Inr storageLvmDefaultThinPoolName, w1))"

definition createThinLV :: "env \<Rightarrow> storageLvm \<Rightarrow> string \<Rightarrow> world \<Rightarrow> (error + string) \<times> world" where
  "createThinLV env s lvname w =
     (let (r, w1) = ConfigValueGet env ''storage.lvm_thinpool_name'' w
      in case r of
           Inl err \<Rightarrow> (Inl (''Error checking server config, err='' @ err), w1)
         | Inr poolname \<Rightarrow>
             (let (pool, w2) =
                    (if poolname = [] then
                       (let (r2, w2) = createDefaultThinPool env s w1
                        in case r2 of
                             Inl err \<Rightarrow> (Inl (''Error creating LVM thin pool: '' @ err), w2)
                           | Inr poolname \<Rightarrow>
                               (let (e3, w3) = storageLVMSetThinPoolNameConfig env poolname w2
                                in case e3 of
                                     Some err \<Rightarrow>
                                       (Inl (''Error setting LVM thin pool config: '' @ err),
                                        logMsg LError ''Setting thin pool name'' w3)
                                   | None \<Rightarrow> (Inr poolname, w3)))
                     else (Inr poolname, w1))
              in case pool of
                   Inl err \<Rightarrow> (Inl err, w2)
                 | Inr poolname \<Rightarrow>
                     (let (r4, w4) = command env ''lvcreate''
                                       [''--thin'', ''-n'', lvname, ''--virtualsize'',
                                        storageLvmDefaultThinLVSize, vgName s @ ''/'' @ poolname] w2
                      in case exec_err r4 of
                           Some err \<Rightarrow>
                             (Inl (''Could not create thin LV named '' @ lvname),
                              logMsg LDebug ''Could not create LV'' w4)
                         | None \<Rightarrow>
                             (let lvpath = ''/dev/'' @ vgName s @ ''/'' @ lvname;
                                  (r5, w5) = command env ''mkfs.ext4''
                                               [''-E'', ''nodiscard,lazy_itable_init=0,lazy_journal_init=0'',
                                                lvpath] w4
                              in case exec_err r5 of
                                   Some err \<Rightarrow>
                                     (Inl (''Error making filesystem on image LV: '' @ err),
                                      logMsg LError ''mkfs.ext4'' w5)
                                 | None \<Rightarrow> (Inr lvpath, w5)))))"

definition removeLV :: "env \<Rightarrow> storageLvm \<Rightarrow> string \<Rightarrow> world \<Rightarrow> error option \<times> world" where
  "removeLV env s lvname w =
     (let (r, w1) = command env ''lvremove'' [''-f'', vgName s @ ''/'' @ lvname] w
      in case exec_err r of
           Some err \<Rightarrow>
             (Some (''Could not remove LV named '' @ lvname), logMsg LDebug ''Could not remove LV'' w1)
         | None \<Rightarrow> (None, w1))"

definition createSnapshotLV ::
    "env \<Rightarrow> storageLvm \<Rightarrow> string \<Rightarrow> string \<Rightarrow> bool \<Rightarrow> world \<Rightarrow> (error + string) \<times> world" where
  "createSnapshotLV env s lvname origlvname readonly w =
     (let (r, w1) = command env ''lvcreate''
                      [''-kn'', ''-n'', lvname, ''-s'', ''/dev/'' @ vgName s @ ''/'' @ origlvname] w
      in case exec_err r of
           Some err \<Rightarrow>
             (Inl (''Could not create snapshot LV named '' @ lvname),
              logMsg LDebug ''Could not create LV snapshot'' w1)
         | None \<Rightarrow>
             (let snapshotFullName = ''/dev/'' @ vgName s @ ''/'' @ lvname;
                  (r2, w2) =
                    (if readonly then command env ''lvchange'' [''-ay'', ''-pr'', snapshotFullName] w1
                     else command env ''lvchange'' [''-ay'', snapshotFullName] w1)
              in case exec_err r2 of
                   Some err \<Rightarrow>
                     (Inl (''Could not activate new snapshot '' @ quote @ lvname @ quote @ '': '' @ err @
                           newline @ ''output:'' @ exec_output r2), w2)
                 | None \<Rightarrow> (Inr snapshotFullName, w2)))"

definition isLVMContainer :: "world \<Rightarrow> container \<Rightarrow> bool" where
  "isLVMContainer w c = PathExists w (Path c @ ''.lv'')"

definition renameLV ::
    "env \<Rightarrow> storageLvm \<Rightarrow> string \<Rightarrow> string \<Rightarrow> world \<Rightarrow> (string \<times> error option) \<times> world" where
  "renameLV env s oldName newName w =
     (let (r, w1) = command env ''lvrename'' [vgName s, oldName, newName] w
      in ((exec_output r, exec_err r), w1))"

subsection \<open>Containers and images\<close>

definition ContainerCreate :: "env \<Rightarrow> storageLvm \<Rightarrow> container \<Rightarrow> world \<Rightarrow> error option \<times> world" where
  "ContainerCreate env s c w =
     (let containerName = containerNameToLVName (Name c);
          (r, w1) = createThinLV env s containerName w
      in case r of
           Inl err \<Rightarrow> (Some err, w1)
         | Inr lvpath \<Rightarrow>
             (let (e2, w2) = os_MkdirAll env (Path c) w1
              in case e2 of
                   Some err \<Rightarrow> (Some err, w2)
                 | None \<Rightarrow>
                     (let dst = VarPath env [''containers'', Name c @ ''.lv'']
                      in os_Symlink env lvpath dst w2)))"

definition ContainerDelete :: "env \<Rightarrow> storageLvm \<Rightarrow> container \<Rightarrow> world \<Rightarrow> error option \<times> world" where
  "ContainerDelete env s c w =
     (let lvName = containerNameToLVName (Name c);
          (e1, w1) = removeLV env s lvName w
      in case e1 of
           Some err \<Rightarrow> (Some err, w1)
         | None \<Rightarrow>
             (let lvLinkPath = Path c @ ''.lv'';
                  (e2, w2) = os_Remove env lvLinkPath w1
              in case e2 of
                   Some err \<Rightarrow> (Some err, w2)
                 | None \<Rightarrow>
                     (let cPath = Path c;
                          (e3, w3) = os_RemoveAll env cPath w2
                      in case e3 of
                           Some err \<Rightarrow>
                             (Some (''Cleaning up '' @ cPath @ '': '' @ err),
                              logMsg LError ''ContainerDelete: failed to remove path'' w3)
                         | None \<Rightarrow> (None, w3))))"

definition ContainerStart :: "env \<Rightarrow> storageLvm \<Rightarrow> container \<Rightarrow> world \<Rightarrow> error option \<times> world" where
  "ContainerStart env s c w =
     (let lvName = containerNameToLVName (Name c);
          lvpath = ''/dev/'' @ vgName s @ ''/'' @ lvName;
          (r, w1) = command env ''mount'' [''-o'', ''discard'', lvpath, Path c] w
      in case exec_err r of
           Some err \<Rightarrow>
             (Some (''Error mounting snapshot LV path='' @ quote @ Path c @ quote @ '': '' @ err @
                    newline @ ''output:'' @ quote @ exec_output r @ quote), w1)
         | None \<Rightarrow> (None, w1))"

definition ContainerStop :: "env \<Rightarrow> storageLvm \<Rightarrow> container \<Rightarrow> world \<Rightarrow> error option \<times> world" where
  "ContainerStop env s c w =
     (let (e, w1) = syscall_Unmount env (Path c) w
      in case e of
           Some err \<Rightarrow>
             (Some (''failed to unmount container path '' @ quote @ Path c @ quote @ ''.'' @ newline @
                    ''Error: '' @ err), w1)
         | None \<Rightarrow> (None, w1))"

definition createSnapshotContainer ::
    "env \<Rightarrow> storageLvm \<Rightarrow> container \<Rightarrow> container \<Rightarrow> bool \<Rightarrow> world \<Rightarrow> error option \<times> world" where
  "createSnapshotContainer env s snapshotContainer sourceContainer readonly w =
     (let srcName = containerNameToLVName (Name sourceContainer);
          destName = containerNameToLVName (Name snapshotContainer);
          w0 = logMsg LDebug ''Creating snapshot'' w;
          (r, w1) = createSnapshotLV env s destName srcName readonly w0
      in case r of
           Inl err \<Rightarrow> (Some (''Error creating snapshot LV: '' @ err), w1)
         | Inr lvpath \<Rightarrow>
             (let destPath = Path snapshotContainer;
                  (e2, w2) = os_MkdirAll env destPath w1
              in case e2 of
                   Some err \<Rightarrow> (Some (''Error creating container directory: '' @ err), w2)
                 | None \<Rightarrow>
                     (let dest = Path snapshotContainer @ ''.lv''
                      in os_Symlink env lvpath dest w2)))"

text \<open>
  \<open>ImageCreate\<close> registers the removal of the temporary mount point with \<open>defer\<close> once the
  directory exists: the statements after it give the return value, then the removal runs.
\<close>

definition ImageCreate :: "env \<Rightarrow> storageLvm \<Rightarrow> string \<Rightarrow> world \<Rightarrow> error option \<times> world" where
  "ImageCreate env s fingerprint w =
     (let finalName = VarPath env [''images'', fingerprint];
          (r, w1) = createThinLV env s fingerprint w
      in case r of
           Inl err \<Rightarrow>
             (Some (''Error Creating LVM LV for new image: '' @ err), logMsg LError ''LVMCreateThinLV'' w1)
         | Inr lvpath \<Rightarrow>
             (let dst = VarPath env [''images'', fingerprint @ ''.lv''];
                  (e2, w2) = os_Symlink env lvpath dst w1
              in case e2 of
                   Some err \<Rightarrow> (Some err, w2)
                 | None \<Rightarrow>
                     (let (r3, w3) = ioutil_TempDir env (VarPath env [''images'']) ''tmp_lv_mnt'' w2
                      in case r3 of
                           Inl err \<Rightarrow> (Some err, w3)
                         | Inr tempLVMountPoint \<Rightarrow>
                             (let (ret, w7) =
                                    (let (r4, w4) = command env ''mount''
                                                      [''-o'', ''discard'', lvpath, tempLVMountPoint] w3
                                     in case exec_err r4 of
                                          Some err \<Rightarrow>
                                            (Some (''Error mounting image LV: '' @ err),
                                             logMsg LInfo (''Error mounting image LV for untarring: '' @
                                                           quote @ exec_output r4 @ quote) w4)
                                        | None \<Rightarrow>
                                            (let (untarErr, w5) = untarImage env finalName tempLVMountPoint w4;
                                                 (err, w6) = syscall_Unmount env tempLVMountPoint w5
                                             in case err of
                                                  Some e \<Rightarrow>
                                                    (let w6 = logMsg LWarn ''could not unmount LV. Will not remove'' w6
                                                     in case untarErr of
                                                          None \<Rightarrow> (Some e, w6)
                                                        | Some ue \<Rightarrow>
                                                            (Some (''Error unmounting '' @ quote @
                                                                   tempLVMountPoint @ quote @
                                                                   '' during cleanup of error '' @ ue), w6))
                                                | None \<Rightarrow> (untarErr, w6)));
                                  (e8, w8) = os_RemoveAll env tempLVMountPoint w7;
                                  w9 = (if e8 \<noteq> None
                                        then logMsg LError ''Deleting temporary LVM mount point'' w8
                                        else w8)
                              in (ret, w9)))))"

definition ContainerCreateFromImage ::
    "env \<Rightarrow> storageLvm \<Rightarrow> container \<Rightarrow> string \<Rightarrow> world \<Rightarrow> error option \<times> world" where
  "ContainerCreateFromImage env s c imageFingerprint w =
     (let imageLVFilename = VarPath env [''images'', imageFingerprint @ ''.lv''];
          (e0, w1) = (if \<not> PathExists w imageLVFilename then ImageCreate env s imageLVFilename w
                      else (None, w))
      in case e0 of
           Some err \<Rightarrow> (Some err, w1)
         | None \<Rightarrow>
         (let containerName = containerNameToLVName (Name c);
              (r2, w2) = createSnapshotLV env s containerName imageFingerprint False w1
          in case r2 of
               Inl err \<Rightarrow> (Some err, w2)
             | Inr lvpath \<Rightarrow>
             (let destPath = Path c;
                  (e3, w3) = os_MkdirAll env destPath w2
              in case e3 of
                   Some err \<Rightarrow> (Some (''Error creating container directory: '' @ err), w3)
                 | None \<Rightarrow>
                 (let dst = VarPath env [''containers'', Name c @ ''.lv''];
                      (e4, w4) = os_Symlink env lvpath dst w3
                  in case e4 of
                       Some err \<Rightarrow> (Some err, w4)
                     | None \<Rightarrow>
                     (let (r5, w5) = command env ''mount'' [''-o'', ''discard'', lvpath, destPath] w4
                      in case exec_err r5 of
                           Some err \<Rightarrow>
                             (Some (''Error mounting snapshot LV: '' @ err @ newline @ ''output:'' @
                                    quote @ exec_output r5 @ quote),
                              snd (ContainerDelete env s c w5))
                         | None \<Rightarrow>
                         (let (e6, w6) =
                                (if \<not> IsPrivileged c then
                                   (let (err, w6) = shiftRootfs env c w5
                                    in case err of
                                         None \<Rightarrow> (None, w6)
                                       | Some err \<Rightarrow>
                                           (let (err2, w7) = syscall_Unmount env destPath w6
                                            in case err2 of
                                                 Some err2 \<Rightarrow>
                                                   (Some (''Error in umount: '' @ quote @ err2 @ quote @
                                                          '' while cleaning up after error in shiftRootfs: '' @
                                                          quote @ err @ quote), w7)
                                               | None \<Rightarrow>
                                                   (Some (''Error in shiftRootfs: '' @ err),
                                                    snd (ContainerDelete env s c w7))))
                                 else (None, w5))
                          in case e6 of
                               Some err \<Rightarrow> (Some err, w6)
                             | None \<Rightarrow>
                             (let (err, w7) = TemplateApply env c ''create'' w6;
                                  w8 = (if err \<noteq> None
                                        then logMsg LError
                                               ''Error in create template during ContainerCreateFromImage, continuing to unmount''
                                               w7
                                        else w7);
                                  (umounterr, w9) = syscall_Unmount env destPath w8
                              in case umounterr of
                                   Some ue \<Rightarrow>
                                     (Some (''Error unmounting '' @ quote @ destPath @ quote @
                                            '' after shiftRootfs: '' @ ue), w9)
                                 | None \<Rightarrow> (err, w9))))))))"

definition ContainerCopy ::
    "env \<Rightarrow> storageLvm \<Rightarrow> container \<Rightarrow> container \<Rightarrow> world \<Rightarrow> error option \<times> world" where
  "ContainerCopy env s c sourceContainer w =
     (let (e0, w0) =
            (if isLVMContainer w sourceContainer then
               (let (e1, w1) = createSnapshotContainer env s c sourceContainer False w
                in case e1 of
                     Some err \<Rightarrow> (Some err, logMsg LError ''Error creating snapshot LV for copy'' w1)
                   | None \<Rightarrow> (None, w1))
             else
               (let w1 = logMsg LInfo ''Copy from Non-LVM container'' w;
                    (e2, w2) = ContainerCreate env s c w1
                in case e2 of
                     Some err \<Rightarrow> (Some err, logMsg LError ''Error creating empty container'' w2)
                   | None \<Rightarrow>
                       (let (e3, w3) = ContainerStart env s c w2
                        in case e3 of
                             Some err \<Rightarrow>
                               (Some err,
                                snd (ContainerDelete env s c
                                       (logMsg LError ''Error starting/mounting container'' w3)))
                           | None \<Rightarrow>
                               (let ((output, e4), w4) =
                                      storageRsyncCopy env (Path sourceContainer) (Path c) w3
                                in case e4 of
                                     Some err \<Rightarrow>
                                       (Some (''rsync failed: '' @ output),
                                        snd (ContainerDelete env s c
                                               (logMsg LError ''ContainerCopy: rsync failed'' w4)))
                                   | None \<Rightarrow> ContainerStop env s c w4))))
      in case e0 of
           Some err \<Rightarrow> (Some err, w0)
         | None \<Rightarrow> TemplateApply env c ''copy'' w0)"

text \<open>
  \<open>ContainerRename\<close> calls itself for every snapshot of a container that is not a
  snapshot; \<open>renameSnapshots\<close> is its loop over them. The trace notes each entry into
  \<open>ContainerRename\<close> with the two arguments of the call (the one line of the trace that
  is not an operation of the source).
\<close>

fun ContainerRename ::
    "env \<Rightarrow> storageLvm \<Rightarrow> container \<Rightarrow> string \<Rightarrow> world \<Rightarrow> error option \<times> world"
and renameSnapshots ::
    "env \<Rightarrow> storageLvm \<Rightarrow> container list \<Rightarrow> string \<Rightarrow> world \<Rightarrow> error option \<times> world" where
  "ContainerRename env s (Container name path privileged isSnapshot snapshots) newContainerName w =
     (let w0 = record_op (Entered ''ContainerRename'' name newContainerName) w;
          oldName = containerNameToLVName name;
          newName = containerNameToLVName newContainerName;
          ((output, err), w1) = renameLV env s oldName newName w0
      in case err of
           Some e \<Rightarrow>
             (Some (''Failed to rename a container LV, oldName='' @ quote @ oldName @ quote @
                    '', newName='' @ quote @ newName @ quote @ '', err='' @ quote @ e @ quote),
              logMsg LError ''Failed to rename a container LV'' w1)
         | None \<Rightarrow>
             (let oldSymPath = path @ ''.lv'';
                  newSymPath = containerPath env newName False @ ''.lv'';
                  (e2, w2) = os_Rename env oldSymPath newSymPath w1
              in case e2 of
                   Some e \<Rightarrow> (Some e, logMsg LError ''Rename of the symlink failed'' w2)
                 | None \<Rightarrow>
                     if \<not> isSnapshot then
                       (case snapshots of
                          Inl e \<Rightarrow> (Some e, w2)
                        | Inr snaps \<Rightarrow> renameSnapshots env s snaps newName w2)
                     else (None, w2)))"
| "renameSnapshots env s [] newName w = (None, w)"
| "renameSnapshots env s (snap # snaps) newName w =
     (let baseSnapName = Base (Name snap);
          newSnapshotName = newName @ SnapshotDelimiter @ baseSnapName;
          (err, w1) = ContainerRename env s snap newSnapshotName w
      in case err of
           Some e \<Rightarrow> (Some e, w1)
         | None \<Rightarrow> renameSnapshots env s snaps newName w1)"

declare ContainerRename.simps [simp del]

section \<open>Example surroundings\<close>

text \<open>
  Concrete surroundings on which the theorems below are exercised: an environment in
  which every operation succeeds (both configuration keys are set, the database lists
  nothing), a world with no path and no history, a driver bound to \<open>vg0\<close>, and a few
  containers.
\<close>

definition succeeding :: env where
  "succeeding =
     \<lparr>VarDir = ''/var/lib/lxd'',
      run = (\<lambda>h name args. Done []),
      call = (\<lambda>h e. None),
      fetch = (\<lambda>h e.
        case e of
          CfgGet key \<Rightarrow>
            Inr (if key = ''storage.lvm_vg_name'' then ''vg0''
                 else if key = ''storage.lvm_thinpool_name'' then ''LXDPool''
                 else [])
        | TempDir dir pfx \<Rightarrow> Inr (dir @ ''/'' @ pfx @ ''001'')
        | _ \<Rightarrow> Inr []),
      listing = (\<lambda>h e. Inr []),
      sync = (\<lambda>h source dest. ([], None))\<rparr>"

definition emptyWorld :: world where
  "emptyWorld = \<lparr>fs = {}, trace = []\<rparr>"

definition lvm0 :: storageLvm where
  "lvm0 = \<lparr>vgName = ''vg0'', sTypeVersion = []\<rparr>"

definition web :: container where
  "web = Container ''web'' ''/var/lib/lxd/containers/web'' False False (Inr [])"

definition web2 :: container where
  "web2 = Container ''web2'' ''/var/lib/lxd/containers/web2'' True False (Inr [])"

definition snap0 :: container where
  "snap0 = Container ''c1/snap0'' ''/var/lib/lxd/snapshots/c1/snap0'' False True (Inr [])"

definition snap1 :: container where
  "snap1 = Container ''c1/snap1'' ''/var/lib/lxd/snapshots/c1/snap1'' False True (Inr [])"

definition c1 :: container where
  "c1 = Container ''c1'' ''/var/lib/lxd/containers/c1'' False False (Inr [snap0, snap1])"

text \<open>The entries into \<open>ContainerRename\<close> that a trace notes, newest first.\<close>

fun isEntered :: "op \<Rightarrow> bool" where
  "isEntered (Entered f a b) = True"
| "isEntered e = False"

definition entries :: "op list \<Rightarrow> op list" where
  "entries ops = filter isEntered ops"

section \<open>Facts about the string functions\<close>

lemma Contains_single: "Contains s [c] = (c \<in> set s)"
  by (induction s) auto

lemma Replace_Nil: "Replace [] old new = []"
  by (simp add: Replace.simps)

lemma Replace_single_Cons:
  "Replace (x # xs) [c] new = (if x = c then new @ Replace xs [c] new else x # Replace xs [c] new)"
  by (subst Replace.simps) simp

lemma Replace_single_absent: "c \<notin> set s \<Longrightarrow> Replace s [c] new = s"
  by (induction s) (auto simp: Replace_Nil Replace_single_Cons)

lemma set_Replace_hyphen: "set (Replace s ''-'' ''--'') = set s"
  by (induction s) (auto simp: Replace_Nil Replace_single_Cons)

lemma containerNameToLVName_plain:
  "\<not> Contains n SnapshotDelimiter \<Longrightarrow> containerNameToLVName n = Replace n ''-'' ''--''"
  by (simp add: containerNameToLVName_def SnapshotDelimiter_def Contains_single
      Replace_single_absent set_Replace_hyphen)

lemma Replace_hyphen_inj:
  "Replace a ''-'' ''--'' = Replace b ''-'' ''--'' \<Longrightarrow> a = b"
proof (induction a arbitrary: b)
  case Nil
  then show ?case
    by (cases b) (auto simp: Replace_Nil Replace_single_Cons split: if_splits)
next
  case (Cons x xs)
  show ?case
  proof (cases b)
    case Nil
    with Cons.prems show ?thesis
      by (auto simp: Replace_Nil Replace_single_Cons split: if_splits)
  next
    case (Cons y ys)
    with Cons.prems Cons.IH[of ys] show ?thesis
      by (auto simp: Replace_Nil Replace_single_Cons split: if_splits)
  qed
qed

section \<open>The name mapping\<close>

text \<open>
  Claim C9. Two distinct logical names, neither containing the snapshot delimiter, are
  mapped to distinct volume names: on such names \<open>containerNameToLVName\<close> only doubles
  the hyphens, and that is injective.
\<close>

theorem containerNameToLVName_injective:
  assumes "\<not> Contains a SnapshotDelimiter" and "\<not> Contains b SnapshotDelimiter"
    and "a \<noteq> b"
  shows "containerNameToLVName a \<noteq> containerNameToLVName b"
  using assms by (auto simp: containerNameToLVName_plain dest: Replace_hyphen_inj)

theorem containerNameToLVName_injective_witness:
  "\<not> Contains ''web-1'' SnapshotDelimiter \<and> \<not> Contains ''web--1'' SnapshotDelimiter \<and>
   ''web-1'' \<noteq> ''web--1'' \<and>
   containerNameToLVName ''web-1'' = ''web--1'' \<and>
   containerNameToLVName ''web--1'' = ''web----1'' \<and>
   containerNameToLVName ''web-1'' \<noteq> containerNameToLVName ''web--1''"
proof -
  have a: "\<not> Contains ''web-1'' SnapshotDelimiter" by code_simp
  have b: "\<not> Contains ''web--1'' SnapshotDelimiter" by code_simp
  have c: "''web-1'' \<noteq> ''web--1''" by simp
  have d: "containerNameToLVName ''web-1'' = ''web--1''" by code_simp
  have e: "containerNameToLVName ''web--1'' = ''web----1''" by code_simp
  from a b c d e containerNameToLVName_injective[OF a b c] show ?thesis by blast
qed

section \<open>Probing the thin pool\<close>

text \<open>
  Claim C7. \<open>storageLVMThinpoolExists\<close> returns \<open>(false, nil)\<close> exactly when the query
  ran and ended with exit status 5. Any other failure of the query (another exit status,
  or the command not running at all) gives the generic error. When the query succeeds,
  the answer is \<open>(true, nil)\<close> if the trimmed attribute string starts with \<open>t\<close>, and
  otherwise an error saying that the volume exists but is not a thin pool, never
  \<open>(false, nil)\<close>.
\<close>

theorem storageLVMThinpoolExists_cases:
  fixes env vg pool w
  defines "r \<equiv> run env (trace w) ''vgs'' [''--noheadings'', ''-o'', ''lv_attr'', vg @ ''/'' @ pool]"
    and "res \<equiv> fst (storageLVMThinpoolExists env vg pool w)"
    and "generic \<equiv> Some (''Error checking for pool '' @ quote @ pool @ quote)"
  shows "((res = (False, None)) = (\<exists>msg out. r = ExitError 5 msg out)) \<and>
         (\<forall>status msg out. r = ExitError status msg out \<and> status \<noteq> 5 \<longrightarrow> res = (False, generic)) \<and>
         (\<forall>msg out. r = StartError msg out \<longrightarrow> res = (False, generic)) \<and>
         (\<forall>output. r = Done output \<longrightarrow>
            res = (if HasPrefix (TrimSpace output) ''t'' then (True, None)
                   else (False, Some (''Pool named '' @ quote @ pool @ quote @
                                       '' exists but is not a thin pool.''))))"
  unfolding r_def res_def generic_def
  by (auto simp: storageLVMThinpoolExists_def command_def Let_def split: exec_result.splits)

theorem storageLVMThinpoolExists_cases_witness:
  "fst (storageLVMThinpoolExists (succeeding\<lparr>run := \<lambda>h name args. ExitError 5 ''exit status 5'' []\<rparr>)
          ''vg0'' ''LXDPool'' emptyWorld) = (False, None) \<and>
   fst (storageLVMThinpoolExists (succeeding\<lparr>run := \<lambda>h name args. ExitError 3 ''exit status 3'' []\<rparr>)
          ''vg0'' ''LXDPool'' emptyWorld)
     = (False, Some (''Error checking for pool '' @ quote @ ''LXDPool'' @ quote)) \<and>
   fst (storageLVMThinpoolExists (succeeding\<lparr>run := \<lambda>h name args. Done ''  -wi-a-----''\<rparr>)
          ''vg0'' ''LXDPool'' emptyWorld)
     = (False, Some (''Pool named '' @ quote @ ''LXDPool'' @ quote @ '' exists but is not a thin pool.'')) \<and>
   fst (storageLVMThinpoolExists (succeeding\<lparr>run := \<lambda>h name args. Done ''  twi-a-tz--''\<rparr>)
          ''vg0'' ''LXDPool'' emptyWorld) = (True, None)"
proof -
  have t1: "HasPrefix (TrimSpace ''  twi-a-tz--'') ''t''" by code_simp
  have t2: "\<not> HasPrefix (TrimSpace ''  -wi-a-----'') ''t''" by code_simp
  show ?thesis
    using t1 t2
      storageLVMThinpoolExists_cases[of "succeeding\<lparr>run := \<lambda>h name args. ExitError 5 ''exit status 5'' []\<rparr>"
        "''vg0''" "''LXDPool''" emptyWorld]
      storageLVMThinpoolExists_cases[of "succeeding\<lparr>run := \<lambda>h name args. ExitError 3 ''exit status 3'' []\<rparr>"
        "''vg0''" "''LXDPool''" emptyWorld]
      storageLVMThinpoolExists_cases[of "succeeding\<lparr>run := \<lambda>h name args. Done ''  -wi-a-----''\<rparr>"
        "''vg0''" "''LXDPool''" emptyWorld]
      storageLVMThinpoolExists_cases[of "succeeding\<lparr>run := \<lambda>h name args. Done ''  twi-a-tz--''\<rparr>"
        "''vg0''" "''LXDPool''" emptyWorld]
    by simp
qed

section \<open>Deleting a container\<close>

text \<open>
  Claim C10. When the removal of the backend volume fails, \<open>ContainerDelete\<close> returns
  that error and does nothing more: the only operations it has performed are the
  \<open>lvremove\<close> command and the debug log line, so neither the link nor the directory
  tree is removed and the paths that exist are the ones that existed before.
\<close>

theorem ContainerDelete_removal_fails:
  assumes "removeLV env s (containerNameToLVName (Name c)) w = (Some e, w1)"
  shows "ContainerDelete env s c w = (Some e, w1) \<and>
         e = ''Could not remove LV named '' @ containerNameToLVName (Name c) \<and>
         fs w1 = fs w \<and>
         trace w1 = [Log LDebug ''Could not remove LV'',
                     Exec ''lvremove'' [''-f'', vgName s @ ''/'' @ containerNameToLVName (Name c)]]
                    @ trace w"
  using assms
  by (auto simp: ContainerDelete_def removeLV_def command_def Let_def logMsg_def record_op_def
      split: option.splits prod.splits)

theorem ContainerDelete_removal_fails_witness:
  "ContainerDelete (succeeding\<lparr>run := \<lambda>h name args. ExitError 5 ''exit status 5'' ''in use''\<rparr>) lvm0 web
     \<lparr>fs = {''/var/lib/lxd/containers/web'', ''/var/lib/lxd/containers/web.lv''}, trace = []\<rparr>
   = (Some ''Could not remove LV named web'',
      \<lparr>fs = {''/var/lib/lxd/containers/web'', ''/var/lib/lxd/containers/web.lv''},
       trace = [Log LDebug ''Could not remove LV'', Exec ''lvremove'' [''-f'', ''vg0/web'']]\<rparr>)"
proof -
  have n: "containerNameToLVName (Name web) = ''web''" by code_simp
  have h: "removeLV (succeeding\<lparr>run := \<lambda>h name args. ExitError 5 ''exit status 5'' ''in use''\<rparr>) lvm0
             (containerNameToLVName (Name web))
             \<lparr>fs = {''/var/lib/lxd/containers/web'', ''/var/lib/lxd/containers/web.lv''}, trace = []\<rparr>
           = (Some ''Could not remove LV named web'',
              \<lparr>fs = {''/var/lib/lxd/containers/web'', ''/var/lib/lxd/containers/web.lv''},
               trace = [Log LDebug ''Could not remove LV'', Exec ''lvremove'' [''-f'', ''vg0/web'']]\<rparr>)"
    unfolding n
    by (simp add: removeLV_def command_def logMsg_def record_op_def lvm0_def succeeding_def)
  show ?thesis by (rule ContainerDelete_removal_fails[OF h, THEN conjunct1])
qed

section \<open>Changing the pool configuration\<close>

lemma foldl_collect:
  "foldl (\<lambda>results x. if P x then results @ [x] else results) acc xs = acc @ filter P xs"
  by (induction xs arbitrary: acc) auto

lemma storageLVMGetThinPoolUsers_listed:
  assumes "fetch env (trace w) (CfgGet ''storage.lvm_vg_name'') = Inr vg" and "vg \<noteq> []"
    and "fetch env (CfgGet ''storage.lvm_vg_name'' # trace w) (CfgGet ''storage.lvm_thinpool_name'') = Inr pool"
    and "pool \<noteq> []"
    and "listing env (CfgGet ''storage.lvm_thinpool_name'' # CfgGet ''storage.lvm_vg_name'' # trace w)
           ListContainers = Inr cNames"
    and "listing env (ListContainers # CfgGet ''storage.lvm_thinpool_name'' #
                      CfgGet ''storage.lvm_vg_name'' # trace w) ListImages = Inr imageNames"
  shows "storageLVMGetThinPoolUsers env w =
           ((filter (\<lambda>n. PathExists w (if Contains n SnapshotDelimiter
                                        then VarPath env [''snapshots'', n @ ''.lv'']
                                        else VarPath env [''containers'', n @ ''.lv''])) cNames @
             filter (\<lambda>n. PathExists w (VarPath env [''images'', n @ ''.lv''])) imageNames, None),
            w\<lparr>trace := [ListImages, ListContainers, CfgGet ''storage.lvm_thinpool_name'',
                        CfgGet ''storage.lvm_vg_name''] @ trace w\<rparr>)"
  using assms
  by (simp add: storageLVMGetThinPoolUsers_def ConfigValueGet_def dbContainersList_def dbImagesGet_def
      record_op_def Let_def foldl_collect PathExists_def)

text \<open>
  Claim C6, as stated, fails: a link record alone does not block a configuration change.
  \<open>storageLVMGetThinPoolUsers\<close> reports nothing when one of the two configuration keys
  is empty, whatever links exist. Here the volume group is configured, the thin pool name
  is not, and the link of container \<open>web\<close> exists: both setters succeed and write the
  new value.
\<close>

theorem config_change_counterexample:
  "PathExists \<lparr>fs = {''/var/lib/lxd/containers/web.lv''}, trace = []\<rparr> (VarPath succeeding [''containers'', ''web.lv'']) \<and>
   storageLVMSetVolumeGroupNameConfig
     (succeeding\<lparr>fetch := \<lambda>h e. Inr (if e = CfgGet ''storage.lvm_vg_name'' then ''vg0'' else []),
                 listing := \<lambda>h e. Inr [''web''],
                 run := \<lambda>h name args. Done ''twi-a-tz--''\<rparr>) ''vg1''
     \<lparr>fs = {''/var/lib/lxd/containers/web.lv''}, trace = []\<rparr>
   = (None, \<lparr>fs = {''/var/lib/lxd/containers/web.lv''},
             trace = [CfgSet ''storage.lvm_vg_name'' ''vg1'', Exec ''vgdisplay'' [''-s'', ''vg1''],
                      CfgGet ''storage.lvm_thinpool_name'', CfgGet ''storage.lvm_vg_name'']\<rparr>) \<and>
   storageLVMSetThinPoolNameConfig
     (succeeding\<lparr>fetch := \<lambda>h e. Inr (if e = CfgGet ''storage.lvm_vg_name'' then ''vg0'' else []),
                 listing := \<lambda>h e. Inr [''web''],
                 run := \<lambda>h name args. Done ''twi-a-tz--''\<rparr>) ''pool1''
     \<lparr>fs = {''/var/lib/lxd/containers/web.lv''}, trace = []\<rparr>
   = (None, \<lparr>fs = {''/var/lib/lxd/containers/web.lv''},
             trace = [CfgSet ''storage.lvm_thinpool_name'' ''pool1'',
                      Exec ''vgs'' [''--noheadings'', ''-o'', ''lv_attr'', ''vg0/pool1''],
                      CfgGet ''storage.lvm_vg_name'',
                      CfgGet ''storage.lvm_thinpool_name'', CfgGet ''storage.lvm_vg_name'']\<rparr>)"
  by code_simp


text \<open>
  Claim C6, amended. When both configuration keys are read without error and are not
  empty, both database listings succeed, and at least one listed container, snapshot or
  image name has a link record, then \<open>storageLVMSetVolumeGroupNameConfig\<close> and
  \<open>storageLVMSetThinPoolNameConfig\<close> both return the in-use error naming the users, and
  neither does anything after the four reads: no configuration value is written.
\<close>

theorem config_change_refused_when_in_use:
  fixes env w vgname poolname cNames imageNames users refusal
  defines "users \<equiv>
      filter (\<lambda>n. PathExists w (if Contains n SnapshotDelimiter
                                  then VarPath env [''snapshots'', n @ ''.lv'']
                                  else VarPath env [''containers'', n @ ''.lv''])) cNames @
      filter (\<lambda>n. PathExists w (VarPath env [''images'', n @ ''.lv''])) imageNames"
    and "refusal \<equiv> (Some (''Can not change LVM config. Images or containers are still using LVs: '' @
                           fmtStrings users),
                     w\<lparr>trace := [ListImages, ListContainers, CfgGet ''storage.lvm_thinpool_name'',
                                  CfgGet ''storage.lvm_vg_name''] @ trace w\<rparr>)"
  assumes vg: "fetch env (trace w) (CfgGet ''storage.lvm_vg_name'') = Inr vg" and vg_set: "vg \<noteq> []"
    and pool: "fetch env (CfgGet ''storage.lvm_vg_name'' # trace w) (CfgGet ''storage.lvm_thinpool_name'') = Inr pool"
    and pool_set: "pool \<noteq> []"
    and containers: "listing env (CfgGet ''storage.lvm_thinpool_name'' # CfgGet ''storage.lvm_vg_name'' # trace w)
           ListContainers = Inr cNames"
    and images: "listing env (ListContainers # CfgGet ''storage.lvm_thinpool_name'' #
                      CfgGet ''storage.lvm_vg_name'' # trace w) ListImages = Inr imageNames"
    and linked: "(\<exists>n \<in> set cNames. PathExists w (if Contains n SnapshotDelimiter
                                                 then VarPath env [''snapshots'', n @ ''.lv'']
                                                 else VarPath env [''containers'', n @ ''.lv''])) \<or>
                 (\<exists>n \<in> set imageNames. PathExists w (VarPath env [''images'', n @ ''.lv'']))"
  shows "users \<noteq> [] \<and>
         storageLVMSetVolumeGroupNameConfig env vgname w = refusal \<and>
         storageLVMSetThinPoolNameConfig env poolname w = refusal"
proof -
  from linked have linked: "users \<noteq> []"
    unfolding users_def by (auto simp: filter_empty_conv)
  have "storageLVMGetThinPoolUsers env w =
          ((users, None),
           w\<lparr>trace := [ListImages, ListContainers, CfgGet ''storage.lvm_thinpool_name'',
                       CfgGet ''storage.lvm_vg_name''] @ trace w\<rparr>)"
    unfolding users_def
    by (rule storageLVMGetThinPoolUsers_listed[OF vg vg_set pool pool_set containers images])
  with linked show ?thesis
    by (simp add: storageLVMSetVolumeGroupNameConfig_def storageLVMSetThinPoolNameConfig_def
        refusal_def)
qed

theorem config_change_refused_when_in_use_witness:
  "storageLVMSetVolumeGroupNameConfig
     (succeeding\<lparr>listing := \<lambda>h e. if e = ListContainers then Inr [''web''] else Inr [''abc123'']\<rparr>)
     ''vg1'' \<lparr>fs = {''/var/lib/lxd/containers/web.lv''}, trace = []\<rparr>
   = (Some ''Can not change LVM config. Images or containers are still using LVs: [web]'',
      \<lparr>fs = {''/var/lib/lxd/containers/web.lv''},
       trace = [ListImages, ListContainers, CfgGet ''storage.lvm_thinpool_name'',
                CfgGet ''storage.lvm_vg_name'']\<rparr>) \<and>
   storageLVMSetThinPoolNameConfig
     (succeeding\<lparr>listing := \<lambda>h e. if e = ListContainers then Inr [''web''] else Inr [''abc123'']\<rparr>)
     ''pool1'' \<lparr>fs = {''/var/lib/lxd/containers/web.lv''}, trace = []\<rparr>
   = (Some ''Can not change LVM config. Images or containers are still using LVs: [web]'',
      \<lparr>fs = {''/var/lib/lxd/containers/web.lv''},
       trace = [ListImages, ListContainers, CfgGet ''storage.lvm_thinpool_name'',
                CfgGet ''storage.lvm_vg_name'']\<rparr>)"
proof -
  let ?env = "succeeding\<lparr>listing := \<lambda>h e. if e = ListContainers then Inr [''web''] else Inr [''abc123'']\<rparr>"
  let ?w = "\<lparr>fs = {''/var/lib/lxd/containers/web.lv''}, trace = []\<rparr>"
  have vg: "fetch ?env (trace ?w) (CfgGet ''storage.lvm_vg_name'') = Inr ''vg0''"
    by (simp add: succeeding_def)
  have pool: "fetch ?env (CfgGet ''storage.lvm_vg_name'' # trace ?w) (CfgGet ''storage.lvm_thinpool_name'')
                = Inr ''LXDPool''"
    by (simp add: succeeding_def)
  have cs: "listing ?env (CfgGet ''storage.lvm_thinpool_name'' # CfgGet ''storage.lvm_vg_name'' # trace ?w)
              ListContainers = Inr [''web'']"
    by (simp add: succeeding_def)
  have imgs: "listing ?env (ListContainers # CfgGet ''storage.lvm_thinpool_name'' #
                          CfgGet ''storage.lvm_vg_name'' # trace ?w) ListImages = Inr [''abc123'']"
    by (simp add: succeeding_def)
  have f: "fmtStrings [''web''] = ''[web]''" by code_simp
  have linked: "(\<exists>n \<in> set [''web'']. PathExists ?w (if Contains n SnapshotDelimiter
                                                 then VarPath ?env [''snapshots'', n @ ''.lv'']
                                                 else VarPath ?env [''containers'', n @ ''.lv''])) \<or>
                (\<exists>n \<in> set [''abc123'']. PathExists ?w (VarPath ?env [''images'', n @ ''.lv'']))"
    by code_simp
  have users: "filter (\<lambda>n. PathExists ?w (if Contains n SnapshotDelimiter
                                  then VarPath ?env [''snapshots'', n @ ''.lv'']
                                  else VarPath ?env [''containers'', n @ ''.lv''])) [''web''] @
               filter (\<lambda>n. PathExists ?w (VarPath ?env [''images'', n @ ''.lv''])) [''abc123''] = [''web'']"
    by code_simp
  note t = config_change_refused_when_in_use[of ?env ?w "''vg0''" "''LXDPool''" "[''web'']" "[''abc123'']"
      "''vg1''" "''pool1''", OF vg _ pool _ cs imgs linked, unfolded users f]
  show ?thesis using t by simp
qed


section \<open>Initialising the driver\<close>

text \<open>
  Claim C4, as stated, fails: a name given in the configuration map is bound as it is.
  With the override \<open>nosuchvg\<close>, for which the existence check fails, \<open>Init\<close> succeeds
  and has run no \<open>vgdisplay\<close>; with an empty override it succeeds as well, bound to the
  empty name.
\<close>

theorem Init_override_counterexample:
  "Init (succeeding\<lparr>run := \<lambda>h name args.
            if name = ''vgdisplay'' then ExitError 5 ''exit status 5'' ''Volume group not found''
            else Done ''  LVM version:     2.02.98(2) (2012-10-15)''\<rparr>)
        \<lparr>vgName = [], sTypeVersion = []\<rparr> [''vgName'' \<mapsto> Str ''nosuchvg''] emptyWorld
   = (Return (Some \<lparr>vgName = ''nosuchvg'', sTypeVersion = ''2.02.98(2) (2012-10-15)''\<rparr>, None),
      \<lparr>fs = {}, trace = [Exec ''lvm'' [''version''], InitShared]\<rparr>) \<and>
   fst (storageLVMCheckVolumeGroup
          (succeeding\<lparr>run := \<lambda>h name args.
            if name = ''vgdisplay'' then ExitError 5 ''exit status 5'' ''Volume group not found''
            else Done ''  LVM version:     2.02.98(2) (2012-10-15)''\<rparr>)
          ''nosuchvg'' \<lparr>fs = {}, trace = [Exec ''lvm'' [''version''], InitShared]\<rparr>)
   = Some (''LVM volume group '' @ quote @ ''nosuchvg'' @ quote @ '' not found'') \<and>
   Init succeeding \<lparr>vgName = [], sTypeVersion = []\<rparr> [''vgName'' \<mapsto> Str []] emptyWorld
   = (Return (Some \<lparr>vgName = [], sTypeVersion = []\<rparr>, None),
      \<lparr>fs = {}, trace = [Exec ''lvm'' [''version''], InitShared]\<rparr>)"
  by code_simp

text \<open>
  Claim C4, amended. After the shared initialisation and \<open>lvm version\<close> have succeeded:
  without an override in the configuration map, \<open>Init\<close> reads the stored key, fails with
  "LVM isn't enabled" when it is empty, and otherwise runs the existence check and binds
  the name only when the check succeeds (returning the check's error when it does not);
  with an override it binds the given name without any check and without the test for
  an empty name.
\<close>

theorem Init_volume_group:
  fixes env s config w w1 r w2 s'
  defines "s' \<equiv> s\<lparr>sTypeVersion := versionLoop (Split (exec_output r) (CHR 0x0A)) 0 []\<rparr>"
  assumes shared: "initShared env w = (None, w1)"
    and version: "command env ''lvm'' [''version''] w1 = (r, w2)"
    and version_ok: "exec_err r = None"
  shows "(config ''vgName'' = None \<or> config ''vgName'' = Some Nil \<longrightarrow>
           (\<forall>err w3. ConfigValueGet env ''storage.lvm_vg_name'' w2 = (Inl err, w3) \<longrightarrow>
              Init env s config w =
                (Return (Some s', Some (''Error checking server config: '' @ err)), w3)) \<and>
           (\<forall>w3. ConfigValueGet env ''storage.lvm_vg_name'' w2 = (Inr [], w3) \<longrightarrow>
              Init env s config w =
                (Return (Some s', Some (''LVM isn'' @ quote @ ''t enabled'')), w3)) \<and>
           (\<forall>v w3 e w4. ConfigValueGet env ''storage.lvm_vg_name'' w2 = (Inr v, w3) \<and> v \<noteq> [] \<and>
                        storageLVMCheckVolumeGroup env v w3 = (e, w4) \<longrightarrow>
              Init env s config w =
                (Return (Some (case e of None \<Rightarrow> s'\<lparr>vgName := v\<rparr> | Some err \<Rightarrow> s'), e), w4))) \<and>
         (\<forall>v. config ''vgName'' = Some (Str v) \<longrightarrow>
            Init env s config w = (Return (Some (s'\<lparr>vgName := v\<rparr>), None), w2))"
  using shared version version_ok unfolding s'_def
  by (auto simp: Init_def Let_def split: option.splits)

theorem Init_volume_group_witness:
  "Init (succeeding\<lparr>run := \<lambda>h name args. Done ''  LVM version:     2.02.98(2) (2012-10-15)''\<rparr>)
        \<lparr>vgName = [], sTypeVersion = []\<rparr> Map.empty emptyWorld
   = (Return (Some \<lparr>vgName = ''vg0'', sTypeVersion = ''2.02.98(2) (2012-10-15)''\<rparr>, None),
      \<lparr>fs = {}, trace = [Exec ''vgdisplay'' [''-s'', ''vg0''], CfgGet ''storage.lvm_vg_name'',
                         Exec ''lvm'' [''version''], InitShared]\<rparr>) \<and>
   Init (succeeding\<lparr>run := \<lambda>h name args. Done ''  LVM version:     2.02.98(2) (2012-10-15)''\<rparr>)
        \<lparr>vgName = [], sTypeVersion = []\<rparr> [''vgName'' \<mapsto> Str ''vg9''] emptyWorld
   = (Return (Some \<lparr>vgName = ''vg9'', sTypeVersion = ''2.02.98(2) (2012-10-15)''\<rparr>, None),
      \<lparr>fs = {}, trace = [Exec ''lvm'' [''version''], InitShared]\<rparr>)"
proof -
  let ?env = "succeeding\<lparr>run := \<lambda>h name args. Done ''  LVM version:     2.02.98(2) (2012-10-15)''\<rparr>"
  let ?s = "\<lparr>vgName = [], sTypeVersion = []\<rparr>"
  let ?w1 = "\<lparr>fs = {}, trace = [InitShared]\<rparr>"
  let ?w2 = "\<lparr>fs = {}, trace = [Exec ''lvm'' [''version''], InitShared]\<rparr>"
  let ?w3 = "\<lparr>fs = {}, trace = [CfgGet ''storage.lvm_vg_name'', Exec ''lvm'' [''version''], InitShared]\<rparr>"
  let ?w4 = "\<lparr>fs = {}, trace = [Exec ''vgdisplay'' [''-s'', ''vg0''], CfgGet ''storage.lvm_vg_name'',
                                  Exec ''lvm'' [''version''], InitShared]\<rparr>"
  have h1: "initShared ?env emptyWorld = (None, ?w1)" by code_simp
  have h2: "command ?env ''lvm'' [''version''] ?w1
              = (Done ''  LVM version:     2.02.98(2) (2012-10-15)'', ?w2)" by code_simp
  have h3: "exec_err (Done ''  LVM version:     2.02.98(2) (2012-10-15)'') = None" by simp
  have h4: "ConfigValueGet ?env ''storage.lvm_vg_name'' ?w2 = (Inr ''vg0'', ?w3)" by code_simp
  have h5: "storageLVMCheckVolumeGroup ?env ''vg0'' ?w3 = (None, ?w4)" by code_simp
  have v: "?s\<lparr>sTypeVersion := versionLoop (Split (exec_output
              (Done ''  LVM version:     2.02.98(2) (2012-10-15)'')) (CHR 0x0A)) 0 []\<rparr>
           = \<lparr>vgName = [], sTypeVersion = ''2.02.98(2) (2012-10-15)''\<rparr>" by code_simp
  note t1 = Init_volume_group[where s = ?s and config = Map.empty, OF h1 h2 h3, unfolded v]
  note t2 = Init_volume_group[where s = ?s and config = "[''vgName'' \<mapsto> Str ''vg9'']",
      OF h1 h2 h3, unfolded v]
  have a: "Init ?env ?s Map.empty emptyWorld
             = (Return (Some \<lparr>vgName = ''vg0'', sTypeVersion = ''2.02.98(2) (2012-10-15)''\<rparr>, None), ?w4)"
    using t1 h4 h5 by simp
  have b: "Init ?env ?s [''vgName'' \<mapsto> Str ''vg9''] emptyWorld
             = (Return (Some \<lparr>vgName = ''vg9'', sTypeVersion = ''2.02.98(2) (2012-10-15)''\<rparr>, None), ?w2)"
    using t2 by simp
  from a b show ?thesis by blast
qed


section \<open>Copying a container that the driver does not back\<close>

lemma with_snd: "fst p = a \<Longrightarrow> p = (a, snd p)"
  by (cases p) simp

lemma ContainerDelete_runs_lvremove:
  "\<exists>ops. trace (snd (ContainerDelete env s c w)) =
           ops @ Exec ''lvremove'' [''-f'', vgName s @ ''/'' @ containerNameToLVName (Name c)] # trace w"
  by (auto simp: ContainerDelete_def removeLV_def command_def Let_def logMsg_def record_op_def
      os_Remove_def os_RemoveAll_def perform_def
      split: option.splits prod.splits)

text \<open>
  Claim C5, as stated, fails for the last step of the fallback path. When the unmount of
  the destination fails, \<open>ContainerCopy\<close> returns the error at once: no \<open>lvremove\<close> is
  run, and the destination's link and directory are still there.
\<close>

theorem ContainerCopy_unmount_counterexample:
  "ContainerCopy
     (succeeding\<lparr>call := \<lambda>h e. if e = Unmount ''/var/lib/lxd/containers/web''
                               then Some ''device or resource busy'' else None\<rparr>)
     lvm0 web web2 emptyWorld
   = (Some (''failed to unmount container path '' @ quote @ ''/var/lib/lxd/containers/web'' @ quote @
            ''.'' @ newline @ ''Error: device or resource busy''),
      \<lparr>fs = {''/var/lib/lxd/containers/web.lv'', ''/var/lib/lxd/containers/web''},
       trace =
         [Unmount ''/var/lib/lxd/containers/web'',
          Rsync ''/var/lib/lxd/containers/web2'' ''/var/lib/lxd/containers/web'',
          Exec ''mount'' [''-o'', ''discard'', ''/dev/vg0/web'', ''/var/lib/lxd/containers/web''],
          Symlink ''/dev/vg0/web'' ''/var/lib/lxd/containers/web.lv'',
          MkdirAll ''/var/lib/lxd/containers/web'',
          Exec ''mkfs.ext4'' [''-E'', ''nodiscard,lazy_itable_init=0,lazy_journal_init=0'', ''/dev/vg0/web''],
          Exec ''lvcreate'' [''--thin'', ''-n'', ''web'', ''--virtualsize'', ''10GiB'', ''vg0/LXDPool''],
          CfgGet ''storage.lvm_thinpool_name'',
          Log LInfo ''Copy from Non-LVM container'']\<rparr>)"
  by code_simp

text \<open>
  Claim C5, amended. In the fallback path, once the empty destination has been created:
  when mounting it fails, and when the directory synchronisation fails, \<open>ContainerCopy\<close>
  logs the failure, calls \<open>ContainerDelete\<close> on the destination (whose first operation is
  the \<open>lvremove\<close> of its volume, and whose own result is ignored) and then returns the
  error; when the unmount fails, it returns the error with the unmount as its last
  operation, the destination left in place; and when all three steps succeed, the result
  is the one of the "copy" template hook, again with no deletion.
\<close>

theorem ContainerCopy_fallback_failures:
  fixes env s c sourceContainer w w2
  defines "lvremove \<equiv> Exec ''lvremove'' [''-f'', vgName s @ ''/'' @ containerNameToLVName (Name c)]"
  assumes foreign: "\<not> isLVMContainer w sourceContainer"
    and created: "ContainerCreate env s c (logMsg LInfo ''Copy from Non-LVM container'' w) = (None, w2)"
  shows "(\<forall>e w3. ContainerStart env s c w2 = (Some e, w3) \<longrightarrow>
            ContainerCopy env s c sourceContainer w =
              (Some e, snd (ContainerDelete env s c
                              (logMsg LError ''Error starting/mounting container'' w3))) \<and>
            (\<exists>ops. trace (snd (ContainerCopy env s c sourceContainer w)) =
                     ops @ lvremove # Log LError ''Error starting/mounting container'' # trace w3)) \<and>
         (\<forall>w3 out e w4.
            ContainerStart env s c w2 = (None, w3) \<and>
            storageRsyncCopy env (Path sourceContainer) (Path c) w3 = ((out, Some e), w4) \<longrightarrow>
            ContainerCopy env s c sourceContainer w =
              (Some (''rsync failed: '' @ out),
               snd (ContainerDelete env s c (logMsg LError ''ContainerCopy: rsync failed'' w4))) \<and>
            (\<exists>ops. trace (snd (ContainerCopy env s c sourceContainer w)) =
                     ops @ lvremove # Log LError ''ContainerCopy: rsync failed'' # trace w4)) \<and>
         (\<forall>w3 out w4 e w5.
            ContainerStart env s c w2 = (None, w3) \<and>
            storageRsyncCopy env (Path sourceContainer) (Path c) w3 = ((out, None), w4) \<and>
            ContainerStop env s c w4 = (Some e, w5) \<longrightarrow>
            ContainerCopy env s c sourceContainer w = (Some e, w5) \<and>
            trace w5 = Unmount (Path c) # trace w4 \<and> fs w5 = fs w4) \<and>
         (\<forall>w3 out w4 w5.
            ContainerStart env s c w2 = (None, w3) \<and>
            storageRsyncCopy env (Path sourceContainer) (Path c) w3 = ((out, None), w4) \<and>
            ContainerStop env s c w4 = (None, w5) \<longrightarrow>
            ContainerCopy env s c sourceContainer w = TemplateApply env c ''copy'' w5)"
proof -
  have del: "\<exists>ops. trace (snd (ContainerDelete env s c (logMsg LError msg w'))) =
                   ops @ lvremove # Log LError msg # trace w'" for msg w'
    using ContainerDelete_runs_lvremove[of env s c "logMsg LError msg w'"]
    by (simp add: lvremove_def logMsg_def record_op_def)
  have start: "ContainerCopy env s c sourceContainer w =
                 (Some e, snd (ContainerDelete env s c
                                 (logMsg LError ''Error starting/mounting container'' w3)))"
    if "ContainerStart env s c w2 = (Some e, w3)" for e w3
    using foreign created that by (simp add: ContainerCopy_def Let_def)
  have rsync: "ContainerCopy env s c sourceContainer w =
                 (Some (''rsync failed: '' @ out),
                  snd (ContainerDelete env s c (logMsg LError ''ContainerCopy: rsync failed'' w4)))"
    if "ContainerStart env s c w2 = (None, w3)"
      and "storageRsyncCopy env (Path sourceContainer) (Path c) w3 = ((out, Some e), w4)"
    for w3 out e w4
    using foreign created that by (simp add: ContainerCopy_def Let_def)
  have stop: "ContainerCopy env s c sourceContainer w = (Some e, w5) \<and>
              trace w5 = Unmount (Path c) # trace w4 \<and> fs w5 = fs w4"
    if "ContainerStart env s c w2 = (None, w3)"
      and "storageRsyncCopy env (Path sourceContainer) (Path c) w3 = ((out, None), w4)"
      and "ContainerStop env s c w4 = (Some e, w5)"
    for w3 out w4 e w5
    using foreign created that
    by (auto simp: ContainerCopy_def Let_def ContainerStop_def syscall_Unmount_def perform_def
        record_op_def split: option.splits prod.splits)
  have hook: "ContainerCopy env s c sourceContainer w = TemplateApply env c ''copy'' w5"
    if "ContainerStart env s c w2 = (None, w3)"
      and "storageRsyncCopy env (Path sourceContainer) (Path c) w3 = ((out, None), w4)"
      and "ContainerStop env s c w4 = (None, w5)"
    for w3 out w4 w5
    using foreign created that by (simp add: ContainerCopy_def Let_def)
  show ?thesis
  proof (intro conjI allI impI)
    fix e w3 assume a: "ContainerStart env s c w2 = (Some e, w3)"
    show "ContainerCopy env s c sourceContainer w =
            (Some e, snd (ContainerDelete env s c
                            (logMsg LError ''Error starting/mounting container'' w3)))"
      by (rule start[OF a])
    show "\<exists>ops. trace (snd (ContainerCopy env s c sourceContainer w)) =
                  ops @ lvremove # Log LError ''Error starting/mounting container'' # trace w3"
      unfolding start[OF a] snd_conv by (rule del)
  next
    fix w3 out e w4
    assume a: "ContainerStart env s c w2 = (None, w3) \<and>
               storageRsyncCopy env (Path sourceContainer) (Path c) w3 = ((out, Some e), w4)"
    show "ContainerCopy env s c sourceContainer w =
            (Some (''rsync failed: '' @ out),
             snd (ContainerDelete env s c (logMsg LError ''ContainerCopy: rsync failed'' w4)))"
      using a by (intro rsync) auto
    show "\<exists>ops. trace (snd (ContainerCopy env s c sourceContainer w)) =
                  ops @ lvremove # Log LError ''ContainerCopy: rsync failed'' # trace w4"
      unfolding rsync[OF a[THEN conjunct1] a[THEN conjunct2]] snd_conv by (rule del)
  next
    fix w3 out w4 e w5
    assume a: "ContainerStart env s c w2 = (None, w3) \<and>
               storageRsyncCopy env (Path sourceContainer) (Path c) w3 = ((out, None), w4) \<and>
               ContainerStop env s c w4 = (Some e, w5)"
    from a have b: "ContainerCopy env s c sourceContainer w = (Some e, w5) \<and>
              trace w5 = Unmount (Path c) # trace w4 \<and> fs w5 = fs w4"
      by (intro stop) auto
    from b show "ContainerCopy env s c sourceContainer w = (Some e, w5)" by simp
    from b show "trace w5 = Unmount (Path c) # trace w4" by simp
    from b show "fs w5 = fs w4" by simp
  next
    fix w3 out w4 w5
    assume a: "ContainerStart env s c w2 = (None, w3) \<and>
               storageRsyncCopy env (Path sourceContainer) (Path c) w3 = ((out, None), w4) \<and>
               ContainerStop env s c w4 = (None, w5)"
    then show "ContainerCopy env s c sourceContainer w = TemplateApply env c ''copy'' w5"
      by (intro hook) auto
  qed
qed


theorem ContainerCopy_fallback_failures_witness:
  "fst (ContainerCopy (succeeding\<lparr>sync := \<lambda>h a b. (''rsync: write failed'', Some ''exit status 11'')\<rparr>)
          lvm0 web web2 emptyWorld) = Some ''rsync failed: rsync: write failed'' \<and>
   fs (snd (ContainerCopy (succeeding\<lparr>sync := \<lambda>h a b. (''rsync: write failed'', Some ''exit status 11'')\<rparr>)
              lvm0 web web2 emptyWorld)) = {} \<and>
   fst (ContainerCopy (succeeding\<lparr>call := \<lambda>h e. if e = Unmount ''/var/lib/lxd/containers/web''
                                                  then Some ''device or resource busy'' else None\<rparr>)
          lvm0 web web2 emptyWorld)
     = Some (''failed to unmount container path '' @ quote @ ''/var/lib/lxd/containers/web'' @ quote @
             ''.'' @ newline @ ''Error: device or resource busy'') \<and>
   fs (snd (ContainerCopy (succeeding\<lparr>call := \<lambda>h e. if e = Unmount ''/var/lib/lxd/containers/web''
                                                      then Some ''device or resource busy'' else None\<rparr>)
              lvm0 web web2 emptyWorld))
     = {''/var/lib/lxd/containers/web.lv'', ''/var/lib/lxd/containers/web''}"
proof -
  let ?R = "succeeding\<lparr>sync := \<lambda>h a b. (''rsync: write failed'', Some ''exit status 11'')\<rparr>"
  let ?U = "succeeding\<lparr>call := \<lambda>h e. if e = Unmount ''/var/lib/lxd/containers/web''
                                     then Some ''device or resource busy'' else None\<rparr>"
  let ?w1 = "logMsg LInfo ''Copy from Non-LVM container'' emptyWorld"
  have foreign: "\<not> isLVMContainer emptyWorld web2" by code_simp
  \<comment> \<open>the directory synchronisation fails\<close>
  let ?r2 = "snd (ContainerCreate ?R lvm0 web ?w1)"
  let ?r3 = "snd (ContainerStart ?R lvm0 web ?r2)"
  let ?r4 = "snd (storageRsyncCopy ?R (Path web2) (Path web) ?r3)"
  have r_created: "ContainerCreate ?R lvm0 web ?w1 = (None, ?r2)"
    by (rule with_snd) code_simp
  have r_started: "ContainerStart ?R lvm0 web ?r2 = (None, ?r3)"
    by (rule with_snd) code_simp
  have r_synced: "storageRsyncCopy ?R (Path web2) (Path web) ?r3
                    = ((''rsync: write failed'', Some ''exit status 11''), ?r4)"
    by (rule with_snd) code_simp
  have r_copy: "ContainerCopy ?R lvm0 web web2 emptyWorld =
          (Some (''rsync failed: '' @ ''rsync: write failed''),
           snd (ContainerDelete ?R lvm0 web (logMsg LError ''ContainerCopy: rsync failed'' ?r4)))"
    using ContainerCopy_fallback_failures[OF foreign r_created] r_started r_synced by blast
  have r_deleted: "fs (snd (ContainerDelete ?R lvm0 web
                              (logMsg LError ''ContainerCopy: rsync failed'' ?r4))) = {}"
    by code_simp
  \<comment> \<open>the unmount fails\<close>
  let ?u2 = "snd (ContainerCreate ?U lvm0 web ?w1)"
  let ?u3 = "snd (ContainerStart ?U lvm0 web ?u2)"
  let ?u4 = "snd (storageRsyncCopy ?U (Path web2) (Path web) ?u3)"
  let ?u5 = "snd (ContainerStop ?U lvm0 web ?u4)"
  let ?e = "''failed to unmount container path '' @ quote @ ''/var/lib/lxd/containers/web'' @ quote @
            ''.'' @ newline @ ''Error: device or resource busy''"
  have u_created: "ContainerCreate ?U lvm0 web ?w1 = (None, ?u2)"
    by (rule with_snd) code_simp
  have u_started: "ContainerStart ?U lvm0 web ?u2 = (None, ?u3)"
    by (rule with_snd) code_simp
  have u_synced: "storageRsyncCopy ?U (Path web2) (Path web) ?u3 = (([], None), ?u4)"
    by (rule with_snd) code_simp
  have u_stopped: "ContainerStop ?U lvm0 web ?u4 = (Some ?e, ?u5)"
    by (rule with_snd) code_simp
  have u_copy: "ContainerCopy ?U lvm0 web web2 emptyWorld = (Some ?e, ?u5)"
    using ContainerCopy_fallback_failures[OF foreign u_created] u_started u_synced u_stopped by blast
  have u_kept: "fs ?u5 = {''/var/lib/lxd/containers/web.lv'', ''/var/lib/lxd/containers/web''}"
    by code_simp
  show ?thesis
    unfolding r_copy u_copy fst_conv snd_conv using r_deleted u_kept by simp
qed


section \<open>Creating a container from an image\<close>

text \<open>
  Claim C1, as stated, fails. Every step succeeds, the "create" template hook fails, the
  unmount succeeds: \<open>ContainerCreateFromImage\<close> has logged the failure and unmounted,
  and then returns the hook's error, not success.
\<close>

theorem ContainerCreateFromImage_template_counterexample:
  "ContainerCreateFromImage
     (succeeding\<lparr>call := \<lambda>h e. if e = Template ''web'' ''create'' then Some ''template: boom''
                               else None\<rparr>)
     lvm0 web ''abc123'' \<lparr>fs = {''/var/lib/lxd/images/abc123.lv''}, trace = []\<rparr>
   = (Some ''template: boom'',
      \<lparr>fs = {''/var/lib/lxd/containers/web.lv'', ''/var/lib/lxd/containers/web'',
             ''/var/lib/lxd/images/abc123.lv''},
       trace =
         [Unmount ''/var/lib/lxd/containers/web'',
          Log LError ''Error in create template during ContainerCreateFromImage, continuing to unmount'',
          Template ''web'' ''create'',
          ShiftRootfs ''web'',
          Exec ''mount'' [''-o'', ''discard'', ''/dev/vg0/web'', ''/var/lib/lxd/containers/web''],
          Symlink ''/dev/vg0/web'' ''/var/lib/lxd/containers/web.lv'',
          MkdirAll ''/var/lib/lxd/containers/web'',
          Exec ''lvchange'' [''-ay'', ''/dev/vg0/web''],
          Exec ''lvcreate'' [''-kn'', ''-n'', ''web'', ''-s'', ''/dev/vg0/abc123'']]\<rparr>)"
  by code_simp

text \<open>
  Claim C1, amended. When every step of \<open>ContainerCreateFromImage\<close> up to the template
  hook succeeds, the hook fails and the final unmount succeeds, the failure is logged,
  the unmount is still performed, and \<open>ContainerCreateFromImage\<close> returns the hook's
  error to the caller: the last three operations are the hook, the error log line and the
  unmount, and the paths that exist are not touched by them.
\<close>

theorem ContainerCreateFromImage_template_failure:
  fixes env s c imageFingerprint w w1 lvpath w2 w3 w4 r5 w5 w6 e w7 w9 imageLVFilename dst logline
  defines "imageLVFilename \<equiv> VarPath env [''images'', imageFingerprint @ ''.lv'']"
    and "dst \<equiv> VarPath env [''containers'', Name c @ ''.lv'']"
    and "logline \<equiv> ''Error in create template during ContainerCreateFromImage, continuing to unmount''"
  assumes image: "(if \<not> PathExists w imageLVFilename then ImageCreate env s imageLVFilename w
                   else (None, w)) = (None, w1)"
    and snapshot: "createSnapshotLV env s (containerNameToLVName (Name c)) imageFingerprint False w1
                     = (Inr lvpath, w2)"
    and mkdir: "os_MkdirAll env (Path c) w2 = (None, w3)"
    and link: "os_Symlink env lvpath dst w3 = (None, w4)"
    and mount: "command env ''mount'' [''-o'', ''discard'', lvpath, Path c] w4 = (r5, w5)"
    and mounted: "exec_err r5 = None"
    and shift: "(if \<not> IsPrivileged c then shiftRootfs env c w5 else (None, w5)) = (None, w6)"
    and hook: "TemplateApply env c ''create'' w6 = (Some e, w7)"
    and unmount: "syscall_Unmount env (Path c) (logMsg LError logline w7) = (None, w9)"
  shows "ContainerCreateFromImage env s c imageFingerprint w = (Some e, w9) \<and>
         trace w9 = [Unmount (Path c), Log LError logline, Template (Name c) ''create''] @ trace w6 \<and>
         fs w9 = fs w6"
proof -
  have run: "ContainerCreateFromImage env s c imageFingerprint w = (Some e, w9)"
    using image snapshot mkdir link mount mounted shift hook unmount
    unfolding imageLVFilename_def dst_def logline_def
    by (cases "IsPrivileged c") (simp_all add: ContainerCreateFromImage_def Let_def)
  have tr: "trace w9 = [Unmount (Path c), Log LError logline, Template (Name c) ''create''] @ trace w6
            \<and> fs w9 = fs w6"
    using hook unmount
    by (auto simp: TemplateApply_def syscall_Unmount_def perform_def logMsg_def record_op_def Let_def
        split: if_splits)
  from run tr show ?thesis by simp
qed


theorem ContainerCreateFromImage_template_failure_witness:
  "fst (ContainerCreateFromImage
          (succeeding\<lparr>call := \<lambda>h e. if e = Template ''web2'' ''create'' then Some ''template: boom''
                                    else None\<rparr>)
          lvm0 web2 ''abc123'' \<lparr>fs = {''/var/lib/lxd/images/abc123.lv''}, trace = []\<rparr>)
     = Some ''template: boom'' \<and>
   take 3 (trace (snd (ContainerCreateFromImage
          (succeeding\<lparr>call := \<lambda>h e. if e = Template ''web2'' ''create'' then Some ''template: boom''
                                    else None\<rparr>)
          lvm0 web2 ''abc123'' \<lparr>fs = {''/var/lib/lxd/images/abc123.lv''}, trace = []\<rparr>)))
     = [Unmount ''/var/lib/lxd/containers/web2'',
        Log LError ''Error in create template during ContainerCreateFromImage, continuing to unmount'',
        Template ''web2'' ''create'']"
proof -
  let ?env = "succeeding\<lparr>call := \<lambda>h e. if e = Template ''web2'' ''create'' then Some ''template: boom''
                                      else None\<rparr>"
  let ?w = "\<lparr>fs = {''/var/lib/lxd/images/abc123.lv''}, trace = []\<rparr>"
  let ?logline = "''Error in create template during ContainerCreateFromImage, continuing to unmount''"
  let ?img = "VarPath ?env [''images'', ''abc123'' @ ''.lv'']"
  let ?w2 = "snd (createSnapshotLV ?env lvm0 (containerNameToLVName (Name web2)) ''abc123'' False ?w)"
  let ?w3 = "snd (os_MkdirAll ?env (Path web2) ?w2)"
  let ?w4 = "snd (os_Symlink ?env ''/dev/vg0/web2'' (VarPath ?env [''containers'', Name web2 @ ''.lv'']) ?w3)"
  let ?w5 = "snd (command ?env ''mount'' [''-o'', ''discard'', ''/dev/vg0/web2'', Path web2] ?w4)"
  let ?w7 = "snd (TemplateApply ?env web2 ''create'' ?w5)"
  let ?w9 = "snd (syscall_Unmount ?env (Path web2) (logMsg LError ?logline ?w7))"
  have image: "(if \<not> PathExists ?w ?img then ImageCreate ?env lvm0 ?img ?w else (None, ?w)) = (None, ?w)"
    by code_simp
  have snapshot: "createSnapshotLV ?env lvm0 (containerNameToLVName (Name web2)) ''abc123'' False ?w
                    = (Inr ''/dev/vg0/web2'', ?w2)"
    by (rule with_snd) code_simp
  have mkdir: "os_MkdirAll ?env (Path web2) ?w2 = (None, ?w3)"
    by (rule with_snd) code_simp
  have link: "os_Symlink ?env ''/dev/vg0/web2'' (VarPath ?env [''containers'', Name web2 @ ''.lv'']) ?w3
                = (None, ?w4)"
    by (rule with_snd) code_simp
  have mount: "command ?env ''mount'' [''-o'', ''discard'', ''/dev/vg0/web2'', Path web2] ?w4 = (Done [], ?w5)"
    by (rule with_snd) code_simp
  have mounted: "exec_err (Done []) = None" by simp
  have shift: "(if \<not> IsPrivileged web2 then shiftRootfs ?env web2 ?w5 else (None, ?w5)) = (None, ?w5)"
    by code_simp
  have hook: "TemplateApply ?env web2 ''create'' ?w5 = (Some ''template: boom'', ?w7)"
    by (rule with_snd) code_simp
  have unmount: "syscall_Unmount ?env (Path web2) (logMsg LError ?logline ?w7) = (None, ?w9)"
    by (rule with_snd) code_simp
  note t = ContainerCreateFromImage_template_failure[OF image snapshot mkdir link mount mounted shift
      hook unmount]
  have p: "Path web2 = ''/var/lib/lxd/containers/web2''" "Name web2 = ''web2''"
    by (simp_all add: web2_def)
  from t show ?thesis by (simp add: p)
qed



section \<open>Materialising an image\<close>

lemma ImageCreate_after_tempdir:
  assumes volume: "createThinLV env s fingerprint w = (Inr lvpath, w1)"
    and link: "os_Symlink env lvpath (VarPath env [''images'', fingerprint @ ''.lv'']) w1 = (None, w2)"
    and tempdir: "ioutil_TempDir env (VarPath env [''images'']) ''tmp_lv_mnt'' w2 = (Inr mnt, w3)"
  shows "ImageCreate env s fingerprint w =
     (let (ret, w7) =
            (let (r4, w4) = command env ''mount'' [''-o'', ''discard'', lvpath, mnt] w3
             in case exec_err r4 of
                  Some err \<Rightarrow>
                    (Some (''Error mounting image LV: '' @ err),
                     logMsg LInfo (''Error mounting image LV for untarring: '' @
                                   quote @ exec_output r4 @ quote) w4)
                | None \<Rightarrow>
                    (let (untarErr, w5) = untarImage env (VarPath env [''images'', fingerprint]) mnt w4;
                         (err, w6) = syscall_Unmount env mnt w5
                     in case err of
                          Some e \<Rightarrow>
                            (let w6 = logMsg LWarn ''could not unmount LV. Will not remove'' w6
                             in case untarErr of
                                  None \<Rightarrow> (Some e, w6)
                                | Some ue \<Rightarrow>
                                    (Some (''Error unmounting '' @ quote @ mnt @ quote @
                                           '' during cleanup of error '' @ ue), w6))
                        | None \<Rightarrow> (untarErr, w6)));
          (e8, w8) = os_RemoveAll env mnt w7;
          w9 = (if e8 \<noteq> None then logMsg LError ''Deleting temporary LVM mount point'' w8 else w8)
      in (ret, w9))"
  unfolding ImageCreate_def volume Let_def prod.case sum.case link option.case tempdir
  by (rule refl)


lemma os_RemoveAll_outcome:
  "(trace (snd (os_RemoveAll env p w)) = RemoveAll p # trace w) \<and>
   (fst (os_RemoveAll env p w) = None \<longrightarrow> p \<notin> fs (snd (os_RemoveAll env p w)))"
  by (simp add: os_RemoveAll_def perform_def Let_def record_op_def)

text \<open>
  Claim C8, as stated, fails in its last part: the removal of the temporary mount point
  can itself fail, and then the directory stays. Here the unmount fails, so the mount
  point is busy and its removal fails too; \<open>ImageCreate\<close> logs that and returns the
  unmount error, and the directory still exists.
\<close>

theorem ImageCreate_cleanup_counterexample:
  "ImageCreate
     (succeeding\<lparr>call := \<lambda>h e. case e of Unmount p \<Rightarrow> Some ''device busy''
                                        | RemoveAll p \<Rightarrow> Some ''device or resource busy''
                                        | _ \<Rightarrow> None\<rparr>)
     lvm0 ''abc123'' emptyWorld
   = (Some ''device busy'',
      \<lparr>fs = {''/var/lib/lxd/images/tmp_lv_mnt001'', ''/var/lib/lxd/images/abc123.lv''},
       trace =
         [Log LError ''Deleting temporary LVM mount point'',
          RemoveAll ''/var/lib/lxd/images/tmp_lv_mnt001'',
          Log LWarn ''could not unmount LV. Will not remove'',
          Unmount ''/var/lib/lxd/images/tmp_lv_mnt001'',
          Untar ''/var/lib/lxd/images/abc123'' ''/var/lib/lxd/images/tmp_lv_mnt001'',
          Exec ''mount'' [''-o'', ''discard'', ''/dev/vg0/abc123'', ''/var/lib/lxd/images/tmp_lv_mnt001''],
          TempDir ''/var/lib/lxd/images'' ''tmp_lv_mnt'',
          Symlink ''/dev/vg0/abc123'' ''/var/lib/lxd/images/abc123.lv'',
          Exec ''mkfs.ext4'' [''-E'', ''nodiscard,lazy_itable_init=0,lazy_journal_init=0'', ''/dev/vg0/abc123''],
          Exec ''lvcreate'' [''--thin'', ''-n'', ''abc123'', ''--virtualsize'', ''10GiB'', ''vg0/LXDPool''],
          CfgGet ''storage.lvm_thinpool_name'']\<rparr>)"
  by code_simp

text \<open>
  Claim C8, amended. Once the image's volume, its link and the temporary mount point
  exist and the volume is mounted: if unpacking fails, the returned error carries the
  unpacking error (it is that error itself when the unmount succeeds, and a message about
  the failed unmount that ends with the unpacking error when the unmount fails too); the
  unmount error is returned as it is only when unpacking succeeded. Whatever mounting,
  unpacking and unmounting did, the removal of the temporary mount point is attempted as
  the last operation of \<open>ImageCreate\<close>: the directory is gone afterwards, unless the
  removal itself reports an error, which is then only logged.
\<close>

theorem ImageCreate_error_precedence:
  fixes env s fingerprint w lvpath w1 w2 mnt w3 finalName
  defines "finalName \<equiv> VarPath env [''images'', fingerprint]"
  assumes volume: "createThinLV env s fingerprint w = (Inr lvpath, w1)"
    and link: "os_Symlink env lvpath (VarPath env [''images'', fingerprint @ ''.lv'']) w1 = (None, w2)"
    and tempdir: "ioutil_TempDir env (VarPath env [''images'']) ''tmp_lv_mnt'' w2 = (Inr mnt, w3)"
  shows "(\<forall>r4 w4 untarErr w5 umountErr w6.
            command env ''mount'' [''-o'', ''discard'', lvpath, mnt] w3 = (r4, w4) \<and> exec_err r4 = None \<and>
            untarImage env finalName mnt w4 = (untarErr, w5) \<and>
            syscall_Unmount env mnt w5 = (umountErr, w6) \<longrightarrow>
            fst (ImageCreate env s fingerprint w) =
              (case untarErr of
                 Some ue \<Rightarrow>
                   (case umountErr of
                      None \<Rightarrow> Some ue
                    | Some me \<Rightarrow> Some (''Error unmounting '' @ quote @ mnt @ quote @
                                        '' during cleanup of error '' @ ue))
               | None \<Rightarrow> umountErr)) \<and>
         (\<exists>w7 :: world. (trace (snd (ImageCreate env s fingerprint w)) = RemoveAll mnt # trace w7 \<and>
                 mnt \<notin> fs (snd (ImageCreate env s fingerprint w))) \<or>
                trace (snd (ImageCreate env s fingerprint w)) =
                  Log LError ''Deleting temporary LVM mount point'' # RemoveAll mnt # trace w7)"
proof (intro conjI allI impI)
  fix r4 w4 untarErr w5 umountErr w6
  assume a: "command env ''mount'' [''-o'', ''discard'', lvpath, mnt] w3 = (r4, w4) \<and> exec_err r4 = None \<and>
          untarImage env finalName mnt w4 = (untarErr, w5) \<and>
          syscall_Unmount env mnt w5 = (umountErr, w6)"
  then have m: "command env ''mount'' [''-o'', ''discard'', lvpath, mnt] w3 = (r4, w4)"
    and ok: "exec_err r4 = None"
    and u: "untarImage env (VarPath env [''images'', fingerprint]) mnt w4 = (untarErr, w5)"
    and um: "syscall_Unmount env mnt w5 = (umountErr, w6)"
    unfolding finalName_def by simp_all
  show "fst (ImageCreate env s fingerprint w) =
          (case untarErr of
             Some ue \<Rightarrow>
               (case umountErr of
                  None \<Rightarrow> Some ue
                | Some me \<Rightarrow> Some (''Error unmounting '' @ quote @ mnt @ quote @
                                    '' during cleanup of error '' @ ue))
           | None \<Rightarrow> umountErr)"
    unfolding ImageCreate_after_tempdir[OF volume link tempdir] Let_def m prod.case ok option.case u um
    by (cases untarErr; cases umountErr) (simp_all add: case_prod_beta)
next
  obtain ret w7 where body:
    "(let (r4, w4) = command env ''mount'' [''-o'', ''discard'', lvpath, mnt] w3
      in case exec_err r4 of
           Some err \<Rightarrow>
             (Some (''Error mounting image LV: '' @ err),
              logMsg LInfo (''Error mounting image LV for untarring: '' @ quote @ exec_output r4 @ quote) w4)
         | None \<Rightarrow>
             (let (untarErr, w5) = untarImage env (VarPath env [''images'', fingerprint]) mnt w4;
                  (err, w6) = syscall_Unmount env mnt w5
              in case err of
                   Some e \<Rightarrow>
                     (let w6 = logMsg LWarn ''could not unmount LV. Will not remove'' w6
                      in case untarErr of
                           None \<Rightarrow> (Some e, w6)
                         | Some ue \<Rightarrow>
                             (Some (''Error unmounting '' @ quote @ mnt @ quote @
                                    '' during cleanup of error '' @ ue), w6))
                 | None \<Rightarrow> (untarErr, w6))) = (ret, w7)"
    by (rule prod.exhaust)
  have fin: "snd (ImageCreate env s fingerprint w) =
          (if fst (os_RemoveAll env mnt w7) \<noteq> None
           then logMsg LError ''Deleting temporary LVM mount point'' (snd (os_RemoveAll env mnt w7))
           else snd (os_RemoveAll env mnt w7))"
    unfolding ImageCreate_after_tempdir[OF volume link tempdir] body[unfolded Let_def] Let_def
    by (simp add: case_prod_beta)
  show "\<exists>w7 :: world. (trace (snd (ImageCreate env s fingerprint w)) = RemoveAll mnt # trace w7 \<and>
                 mnt \<notin> fs (snd (ImageCreate env s fingerprint w))) \<or>
                trace (snd (ImageCreate env s fingerprint w)) =
                  Log LError ''Deleting temporary LVM mount point'' # RemoveAll mnt # trace w7"
  proof (cases "fst (os_RemoveAll env mnt w7) = None")
    case True
    have t: "snd (ImageCreate env s fingerprint w) = snd (os_RemoveAll env mnt w7)"
      using fin True by simp
    have "trace (snd (ImageCreate env s fingerprint w)) = RemoveAll mnt # trace w7 \<and>
          mnt \<notin> fs (snd (ImageCreate env s fingerprint w))"
      unfolding t using os_RemoveAll_outcome[of env mnt w7] True by simp
    then show ?thesis by blast
  next
    case False
    have t: "snd (ImageCreate env s fingerprint w) =
               logMsg LError ''Deleting temporary LVM mount point'' (snd (os_RemoveAll env mnt w7))"
      using fin False by simp
    have "trace (snd (ImageCreate env s fingerprint w)) =
            Log LError ''Deleting temporary LVM mount point'' # RemoveAll mnt # trace w7"
      unfolding t using os_RemoveAll_outcome[of env mnt w7]
      by (simp add: logMsg_def record_op_def)
    then show ?thesis by blast
  qed
qed


theorem ImageCreate_error_precedence_witness:
  "fst (ImageCreate
          (succeeding\<lparr>call := \<lambda>h e. case e of Untar a b \<Rightarrow> Some ''tar: bad archive''
                                             | Unmount p \<Rightarrow> Some ''device busy''
                                             | _ \<Rightarrow> None\<rparr>)
          lvm0 ''abc123'' emptyWorld)
     = Some (''Error unmounting '' @ quote @ ''/var/lib/lxd/images/tmp_lv_mnt001'' @ quote @
             '' during cleanup of error tar: bad archive'') \<and>
   fst (ImageCreate
          (succeeding\<lparr>call := \<lambda>h e. case e of Unmount p \<Rightarrow> Some ''device busy'' | _ \<Rightarrow> None\<rparr>)
          lvm0 ''abc123'' emptyWorld)
     = Some ''device busy''"
proof -
  let ?B = "succeeding\<lparr>call := \<lambda>h e. case e of Untar a b \<Rightarrow> Some ''tar: bad archive''
                                             | Unmount p \<Rightarrow> Some ''device busy''
                                             | _ \<Rightarrow> None\<rparr>"
  let ?U = "succeeding\<lparr>call := \<lambda>h e. case e of Unmount p \<Rightarrow> Some ''device busy'' | _ \<Rightarrow> None\<rparr>"
  let ?lv = "''/dev/vg0/abc123''"
  let ?mnt = "''/var/lib/lxd/images/tmp_lv_mnt001''"
  \<comment> \<open>unpacking and unmounting both fail\<close>
  let ?b1 = "snd (createThinLV ?B lvm0 ''abc123'' emptyWorld)"
  let ?b2 = "snd (os_Symlink ?B ?lv (VarPath ?B [''images'', ''abc123'' @ ''.lv'']) ?b1)"
  let ?b3 = "snd (ioutil_TempDir ?B (VarPath ?B [''images'']) ''tmp_lv_mnt'' ?b2)"
  let ?b4 = "snd (command ?B ''mount'' [''-o'', ''discard'', ?lv, ?mnt] ?b3)"
  let ?b5 = "snd (untarImage ?B (VarPath ?B [''images'', ''abc123'']) ?mnt ?b4)"
  let ?b6 = "snd (syscall_Unmount ?B ?mnt ?b5)"
  have b_volume: "createThinLV ?B lvm0 ''abc123'' emptyWorld = (Inr ?lv, ?b1)"
    by (rule with_snd) code_simp
  have b_link: "os_Symlink ?B ?lv (VarPath ?B [''images'', ''abc123'' @ ''.lv'']) ?b1 = (None, ?b2)"
    by (rule with_snd) code_simp
  have b_tempdir: "ioutil_TempDir ?B (VarPath ?B [''images'']) ''tmp_lv_mnt'' ?b2 = (Inr ?mnt, ?b3)"
    by (rule with_snd) code_simp
  have b_mount: "command ?B ''mount'' [''-o'', ''discard'', ?lv, ?mnt] ?b3 = (Done [], ?b4)"
    by (rule with_snd) code_simp
  have b_untar: "untarImage ?B (VarPath ?B [''images'', ''abc123'']) ?mnt ?b4
                   = (Some ''tar: bad archive'', ?b5)"
    by (rule with_snd) code_simp
  have b_unmount: "syscall_Unmount ?B ?mnt ?b5 = (Some ''device busy'', ?b6)"
    by (rule with_snd) code_simp
  have both: "fst (ImageCreate ?B lvm0 ''abc123'' emptyWorld)
                = Some (''Error unmounting '' @ quote @ ?mnt @ quote @
                        '' during cleanup of error tar: bad archive'')"
    using ImageCreate_error_precedence[OF b_volume b_link b_tempdir, THEN conjunct1, rule_format,
        OF conjI[OF b_mount conjI[OF _ conjI[OF b_untar b_unmount]]]]
    by simp
  \<comment> \<open>only the unmount fails\<close>
  let ?u1 = "snd (createThinLV ?U lvm0 ''abc123'' emptyWorld)"
  let ?u2 = "snd (os_Symlink ?U ?lv (VarPath ?U [''images'', ''abc123'' @ ''.lv'']) ?u1)"
  let ?u3 = "snd (ioutil_TempDir ?U (VarPath ?U [''images'']) ''tmp_lv_mnt'' ?u2)"
  let ?u4 = "snd (command ?U ''mount'' [''-o'', ''discard'', ?lv, ?mnt] ?u3)"
  let ?u5 = "snd (untarImage ?U (VarPath ?U [''images'', ''abc123'']) ?mnt ?u4)"
  let ?u6 = "snd (syscall_Unmount ?U ?mnt ?u5)"
  have u_volume: "createThinLV ?U lvm0 ''abc123'' emptyWorld = (Inr ?lv, ?u1)"
    by (rule with_snd) code_simp
  have u_link: "os_Symlink ?U ?lv (VarPath ?U [''images'', ''abc123'' @ ''.lv'']) ?u1 = (None, ?u2)"
    by (rule with_snd) code_simp
  have u_tempdir: "ioutil_TempDir ?U (VarPath ?U [''images'']) ''tmp_lv_mnt'' ?u2 = (Inr ?mnt, ?u3)"
    by (rule with_snd) code_simp
  have u_mount: "command ?U ''mount'' [''-o'', ''discard'', ?lv, ?mnt] ?u3 = (Done [], ?u4)"
    by (rule with_snd) code_simp
  have u_untar: "untarImage ?U (VarPath ?U [''images'', ''abc123'']) ?mnt ?u4 = (None, ?u5)"
    by (rule with_snd) code_simp
  have u_unmount: "syscall_Unmount ?U ?mnt ?u5 = (Some ''device busy'', ?u6)"
    by (rule with_snd) code_simp
  have only: "fst (ImageCreate ?U lvm0 ''abc123'' emptyWorld) = Some ''device busy''"
    using ImageCreate_error_precedence[OF u_volume u_link u_tempdir, THEN conjunct1, rule_format,
        OF conjI[OF u_mount conjI[OF _ conjI[OF u_untar u_unmount]]]]
    by simp
  from both only show ?thesis by (rule conjI)
qed


end
